theory Spec2Isabelle
  imports Complex_Main "HOL-Library.AList" "HOL-Library.Char_ord" "HOL-Library.List_Lexorder"
begin

section \<open>Data model (chaincode.go, lines 27-41)\<close>

text \<open>
  The two structs of the chaincode. In Go a field whose name starts with a lower-case
  letter is unexported: \<open>inOrOut\<close> of \<open>UTXO\<close> and all three fields of
  \<open>Transaction\<close> (\<open>id\<close>, \<open>inputs\<close>, \<open>outputs\<close>) are unexported, whatever
  their \<open>json\<close> tags say. The field \<open>id\<close> is written \<open>id_tx\<close> here, since
  \<open>id\<close> is the identity function of HOL.
\<close>

record UTXO =
  Txid :: string
  Index :: string
  Amount :: string
  Address :: string
  inOrOut :: string

record Transaction =
  id_tx :: string
  inputs :: "UTXO list"
  outputs :: "UTXO list"

text \<open>The zero value of the struct, as \<open>var utxo UTXO\<close> declares it.\<close>

definition zero_UTXO :: UTXO where
  "zero_UTXO = \<lparr>Txid = [], Index = [], Amount = [], Address = [], inOrOut = []\<rparr>"

definition makeUTXO :: "string \<Rightarrow> string \<Rightarrow> string \<Rightarrow> string \<Rightarrow> string \<Rightarrow> UTXO" where
  "makeUTXO txid index amount address io =
     \<lparr>Txid = txid, Index = index, Amount = amount, Address = address, inOrOut = io\<rparr>"

definition makeTransaction :: "string \<Rightarrow> UTXO list \<Rightarrow> UTXO list \<Rightarrow> Transaction" where
  "makeTransaction i ins outs = \<lparr>id_tx = i, inputs = ins, outputs = outs\<rparr>"

section \<open>The Go runtime and standard library the chaincode calls\<close>

text \<open>
  The chaincode computes with \<open>float64\<close> and calls \<open>strconv\<close> and
  \<open>encoding/json\<close>. None of these is code of the repository, so they are a parameter
  of the model: a record of operations over a type \<open>'f\<close> of float values. Every
  theorem below that quantifies over the record holds for each behaviour of these
  operations, IEEE 754 arithmetic included.

  \<^item> \<open>ParseFloat s\<close> is the value \<open>strconv.ParseFloat(s, 64)\<close> returns; both call
    sites of the chaincode discard its error result (\<open>amount, _ := ...\<close>).
  \<^item> \<open>FormatFloat x\<close> is \<open>strconv.FormatFloat(x, 'f', 2, 64)\<close>.
  \<^item> \<open>f_zero\<close>, \<open>f_add\<close>, \<open>f_sub\<close>, \<open>f_less\<close> are \<open>0.0\<close>, \<open>+\<close>, \<open>-\<close> and
    \<open><\<close> on \<open>float64\<close>; \<open>a > b\<close> is \<open>f_less b a\<close>.
  \<^item> \<open>json_object ms\<close> is the encoding \<open>json.Marshal\<close> gives a struct whose exported
    fields, all strings, have the tags and values \<open>ms\<close>, in declaration order.
  \<^item> \<open>json_members data tag\<close> is the string \<open>json.Unmarshal\<close> assigns to the exported
    string field tagged \<open>tag\<close> when it decodes \<open>data\<close> into a struct, or \<open>None\<close>
    when it leaves that field as it was.
  \<^item> \<open>json_error data\<close> is the error \<open>json.Unmarshal\<close> returns on \<open>data\<close>, if any.
\<close>

record 'f golib =
  ParseFloat :: "string \<Rightarrow> 'f"
  FormatFloat :: "'f \<Rightarrow> string"
  f_zero :: 'f
  f_add :: "'f \<Rightarrow> 'f \<Rightarrow> 'f"
  f_sub :: "'f \<Rightarrow> 'f \<Rightarrow> 'f"
  f_less :: "'f \<Rightarrow> 'f \<Rightarrow> bool"
  json_object :: "(string \<times> string) list \<Rightarrow> string"
  json_members :: "string \<Rightarrow> string \<Rightarrow> string option"
  json_error :: "string \<Rightarrow> string option"

text \<open>
  \<open>json.Marshal\<close> writes the exported fields only: four members for a \<open>UTXO\<close>
  (\<open>inOrOut\<close> is left out) and none for a \<open>Transaction\<close>.
\<close>

definition json_Marshal_UTXO :: "'f golib \<Rightarrow> UTXO \<Rightarrow> string" where
  "json_Marshal_UTXO L u =
     json_object L [(''txid'', Txid u), (''index'', Index u),
                    (''amount'', Amount u), (''address'', Address u)]"

definition json_Marshal_Transaction :: "'f golib \<Rightarrow> Transaction \<Rightarrow> string" where
  "json_Marshal_Transaction L t = json_object L []"

text \<open>
  \<open>json.Unmarshal(data, &utxo)\<close> sets exported fields only and returns an error value:
  \<open>inOrOut\<close> keeps the value it had before the call.
\<close>

definition json_Unmarshal_UTXO :: "'f golib \<Rightarrow> string \<Rightarrow> UTXO \<Rightarrow> string option \<times> UTXO" where
  "json_Unmarshal_UTXO L data u =
     (json_error L data,
      u\<lparr>Txid := (case json_members L data ''txid'' of None \<Rightarrow> Txid u | Some v \<Rightarrow> v),
        Index := (case json_members L data ''index'' of None \<Rightarrow> Index u | Some v \<Rightarrow> v),
        Amount := (case json_members L data ''amount'' of None \<Rightarrow> Amount u | Some v \<Rightarrow> v),
        Address := (case json_members L data ''address'' of None \<Rightarrow> Address u | Some v \<Rightarrow> v)\<rparr>)"

text \<open>\<open>strconv.Itoa\<close> on a non-negative argument, and \<open>math.MaxUint32\<close>.\<close>

definition MaxUint32 :: nat where
  "MaxUint32 = 4294967295"

fun Itoa :: "nat \<Rightarrow> string" where
  "Itoa n = (if n < 10 then [''0123456789'' ! n]
             else Itoa (n div 10) @ [''0123456789'' ! (n mod 10)])"

declare Itoa.simps [simp del]

text \<open>\<open>strings.Contains(s, sub)\<close>.\<close>

fun HasPrefix :: "string \<Rightarrow> string \<Rightarrow> bool" where
  "HasPrefix s [] = True"
| "HasPrefix [] (c # cs) = False"
| "HasPrefix (x # xs) (c # cs) = (x = c \<and> HasPrefix xs cs)"

fun strings_Contains :: "string \<Rightarrow> string \<Rightarrow> bool" where
  "strings_Contains [] sub = HasPrefix [] sub"
| "strings_Contains (x # xs) sub = (HasPrefix (x # xs) sub \<or> strings_Contains xs sub)"

section \<open>The chaincode stub (shim.ChaincodeStubInterface)\<close>

text \<open>
  The ledger the stub gives access to is an association list from keys to values;
  a range query returns it in ascending key order (bytewise lexicographic). Each store
  call can fail, as the interface allows: the \<open>_err\<close> fields say which calls do, and
  with what message. \<open>Calls\<close> records the mutating calls the chaincode issued, in
  order, whether or not they failed.
\<close>

datatype call = PutStateCall string string | DelStateCall string

record stub =
  TxID :: string
  State :: "(string \<times> string) list"
  GetStateByRange_err :: "string option"
  Next_err :: "string \<Rightarrow> string option"
  GetState_err :: "string \<Rightarrow> string option"
  PutState_err :: "string \<Rightarrow> string \<Rightarrow> string option"
  DelState_err :: "string \<Rightarrow> string option"
  Calls :: "call list"

datatype response = Success "string option" | Error string

definition GetTxID :: "stub \<Rightarrow> string" where
  "GetTxID s = TxID s"

definition PutState :: "stub \<Rightarrow> string \<Rightarrow> string \<Rightarrow> string option \<times> stub" where
  "PutState s key val =
     (case PutState_err s key val of
        Some e \<Rightarrow> (Some e, s\<lparr>Calls := Calls s @ [PutStateCall key val]\<rparr>)
      | None \<Rightarrow> (None, s\<lparr>State := AList.update key val (State s),
                         Calls := Calls s @ [PutStateCall key val]\<rparr>))"

definition DelState :: "stub \<Rightarrow> string \<Rightarrow> string option \<times> stub" where
  "DelState s key =
     (case DelState_err s key of
        Some e \<Rightarrow> (Some e, s\<lparr>Calls := Calls s @ [DelStateCall key]\<rparr>)
      | None \<Rightarrow> (None, s\<lparr>State := AList.delete key (State s),
                         Calls := Calls s @ [DelStateCall key]\<rparr>))"

definition GetState :: "stub \<Rightarrow> string \<Rightarrow> string + string option" where
  "GetState s key =
     (case GetState_err s key of Some e \<Rightarrow> Inl e | None \<Rightarrow> Inr (map_of (State s) key))"

text \<open>
  \<open>GetStateByRange("", "")\<close>: the whole ledger in ascending key order. The iterator
  is the list of what each \<open>Next()\<close> returns: an error, or the next key and value.
\<close>

definition scanAll :: "stub \<Rightarrow> (string \<times> string) list" where
  "scanAll s = sort_key fst (State s)"

definition GetStateByRange :: "stub \<Rightarrow> string + (string + string \<times> string) list" where
  "GetStateByRange s =
     (case GetStateByRange_err s of
        Some e \<Rightarrow> Inl e
      | None \<Rightarrow> Inr (map (\<lambda>kv. case Next_err s (fst kv) of Some e \<Rightarrow> Inl e | None \<Rightarrow> Inr kv)
                        (scanAll s)))"

section \<open>Storing records (lines 115-136)\<close>

definition storeUTXO :: "'f golib \<Rightarrow> stub \<Rightarrow> string \<Rightarrow> UTXO \<Rightarrow> string option \<times> stub" where
  "storeUTXO L s txid utxo =
     (let utxoKey = txid @ '':'' @ Index utxo;
          utxoAsBYtes = json_Marshal_UTXO L utxo
      in PutState s utxoKey utxoAsBYtes)"

definition storeTransaction ::
  "'f golib \<Rightarrow> stub \<Rightarrow> string \<Rightarrow> Transaction \<Rightarrow> string option \<times> stub" where
  "storeTransaction L s txid transaction =
     (let transactionAsBYtes = json_Marshal_Transaction L transaction
      in PutState s txid transactionAsBYtes)"

section \<open>initState (lines 76-106)\<close>

text \<open>
  \<open>initState_tx\<close> is the body of \<open>initState\<close>; besides the response and the stub it
  returns the \<open>Transaction\<close> value the body builds and hands to \<open>storeTransaction\<close>.
\<close>

definition initState_tx :: "'f golib \<Rightarrow> stub \<Rightarrow> response \<times> stub \<times> Transaction" where
  "initState_tx L s =
     (let txid = GetTxID s;
          ins = [makeUTXO txid (Itoa MaxUint32) ''50'' ''Coinbase'' ''in''];
          outs = [makeUTXO txid ''1'' ''50'' ''User A'' ''out''];
          transaction = makeTransaction txid ins outs
      in case storeUTXO L s txid (outs ! 0) of
           (Some e, s1) \<Rightarrow> (Error e, s1, transaction)
         | (None, s1) \<Rightarrow>
             (case storeTransaction L s1 txid transaction of
                (Some e, s2) \<Rightarrow> (Error e, s2, transaction)
              | (None, s2) \<Rightarrow> (Success None, s2, transaction)))"

definition initState :: "'f golib \<Rightarrow> stub \<Rightarrow> response \<times> stub" where
  "initState L s = (case initState_tx L s of (r, s', t) \<Rightarrow> (r, s'))"

section \<open>Point queries (lines 238-269)\<close>

definition queryTransaction :: "stub \<Rightarrow> string list \<Rightarrow> response" where
  "queryTransaction s args =
     (if length args \<noteq> 1 then Error ''Incorrect number of arguments. Expecting 1''
      else case GetState s (args ! 0) of
             Inl e \<Rightarrow> Error e
           | Inr transactionAsBytes \<Rightarrow> Success transactionAsBytes)"

definition queryUTXO :: "stub \<Rightarrow> string list \<Rightarrow> response" where
  "queryUTXO s args =
     (if length args \<noteq> 1 then Error ''Incorrect number of arguments. Expecting 1''
      else case GetState s (args ! 0) of
             Inl e \<Rightarrow> Error e
           | Inr utxoAsBytes \<Rightarrow> Success utxoAsBytes)"

section \<open>Ownership check and query by address (lines 271-339)\<close>

definition checkUTXOOwnerShip :: "UTXO \<Rightarrow> string \<Rightarrow> bool" where
  "checkUTXOOwnerShip utxo address = (Address utxo = address \<and> inOrOut utxo = ''out'')"

text \<open>
  What the loop body appends to the buffer for one entry (lines 312-324): a comma unless
  it is the first member, then the key and the raw value.
\<close>

definition writeMember :: "string \<Rightarrow> bool \<Rightarrow> string \<Rightarrow> string \<Rightarrow> string" where
  "writeMember buffer written key val =
     buffer @ (if written then '','' else []) @ ''{'' @ [CHR 0x22] @ ''Key'' @ [CHR 0x22] @ '':''
       @ [CHR 0x22] @ key @ [CHR 0x22]
       @ '', '' @ [CHR 0x22] @ ''Record'' @ [CHR 0x22] @ '':'' @ val @ ''}''"

text \<open>
  The loop of \<open>queryUTXOByAddr\<close> over the iterator. Its state is the buffer and
  \<open>bArrayMemberAlreadyWritten\<close>. The error \<open>json.Unmarshal\<close> returns is dropped, as
  in the source, which calls it as a statement.
\<close>

fun queryUTXOByAddr_loop ::
  "'f golib \<Rightarrow> string \<Rightarrow> (string + string \<times> string) list \<Rightarrow> string \<times> bool
     \<Rightarrow> string + string \<times> bool" where
  "queryUTXOByAddr_loop L address [] (buffer, written) = Inr (buffer, written)"
| "queryUTXOByAddr_loop L address (Inl e # rest) (buffer, written) = Inl e"
| "queryUTXOByAddr_loop L address (Inr (key, val) # rest) (buffer, written) =
     (if strings_Contains key '':'' then
        (let utxo = snd (json_Unmarshal_UTXO L val zero_UTXO)
         in if checkUTXOOwnerShip utxo address = False
            then queryUTXOByAddr_loop L address rest (buffer, written)
            else queryUTXOByAddr_loop L address rest (writeMember buffer written key val, True))
      else queryUTXOByAddr_loop L address rest (buffer, written))"

definition queryUTXOByAddr :: "'f golib \<Rightarrow> stub \<Rightarrow> string list \<Rightarrow> response" where
  "queryUTXOByAddr L s args =
     (if length args \<noteq> 1 then Error ''Incorrect number of arguments. Expecting 1''
      else let address = args ! 0
           in case GetStateByRange s of
                Inl e \<Rightarrow> Error e
              | Inr resultsIterator \<Rightarrow>
                  (case queryUTXOByAddr_loop L address resultsIterator (''['', False) of
                     Inl e \<Rightarrow> Error e
                   | Inr (buffer, written) \<Rightarrow> Success (Some (buffer @ '']''))))"

section \<open>transferUTXO (lines 341-428)\<close>

text \<open>
  The selection loop (lines 368-395), \<open>for resultsIterator.HasNext() && currValue < amount\<close>.
  Its state is \<open>inputs\<close>, \<open>utfoKeysToRemove\<close> and \<open>currValue\<close>. Every scanned entry is
  decoded, whatever its key; the decoder's error is dropped.
\<close>

fun transferUTXO_loop ::
  "'f golib \<Rightarrow> string \<Rightarrow> 'f \<Rightarrow> (string + string \<times> string) list
     \<Rightarrow> UTXO list \<times> string list \<times> 'f \<Rightarrow> string + UTXO list \<times> string list \<times> 'f" where
  "transferUTXO_loop L addrFrom amount [] (ins, utfoKeysToRemove, currValue) =
     Inr (ins, utfoKeysToRemove, currValue)"
| "transferUTXO_loop L addrFrom amount (r # rest) (ins, utfoKeysToRemove, currValue) =
     (if f_less L currValue amount then
        (case r of
           Inl e \<Rightarrow> Inl e
         | Inr (key, val) \<Rightarrow>
             (let utxo = snd (json_Unmarshal_UTXO L val zero_UTXO)
              in if checkUTXOOwnerShip utxo addrFrom = False
                 then transferUTXO_loop L addrFrom amount rest (ins, utfoKeysToRemove, currValue)
                 else (let utxo' = utxo\<lparr>inOrOut := ''in''\<rparr>;
                           newValue = ParseFloat L (Amount utxo')
                       in transferUTXO_loop L addrFrom amount rest
                            (ins @ [utxo'], utfoKeysToRemove @ [key],
                             f_add L currValue newValue))))
      else Inr (ins, utfoKeysToRemove, currValue))"

text \<open>Lines 402-405: delete the spent keys, dropping what \<open>DelState\<close> returns.\<close>

fun deleteSpent :: "stub \<Rightarrow> string list \<Rightarrow> stub" where
  "deleteSpent s [] = s"
| "deleteSpent s (v # vs) = deleteSpent (snd (DelState s v)) vs"

text \<open>
  Lines 407-417: the outputs. \<open>utxo2\<close> is declared with its zero value and assigned
  only when \<open>currValue > amount\<close>. The result is \<open>(utxo1, utxo2, outputs)\<close>.
\<close>

definition makeOutputs ::
  "'f golib \<Rightarrow> string \<Rightarrow> string list \<Rightarrow> 'f \<Rightarrow> 'f \<Rightarrow> UTXO \<times> UTXO \<times> UTXO list" where
  "makeOutputs L txid args amount currValue =
     (let addrFrom = args ! 0;
          addrTo = args ! 1;
          utxo1 = makeUTXO txid ''1'' (args ! 2) addrTo ''out''
      in if f_less L amount currValue
         then (let utxo2 = makeUTXO txid ''2'' (FormatFloat L (f_sub L currValue amount))
                             addrFrom ''out''
               in (utxo1, utxo2, [utxo1, utxo2]))
         else (utxo1, zero_UTXO, [utxo1]))"

text \<open>
  \<open>transferUTXO_tx\<close> is the body of \<open>transferUTXO\<close>; besides the response and the
  stub it returns the \<open>Transaction\<close> value built at line 424, if the body gets there.
  The results of \<open>storeUTXO\<close> and \<open>storeTransaction\<close> are dropped (lines 420-425).
\<close>

definition transferUTXO_tx ::
  "'f golib \<Rightarrow> stub \<Rightarrow> string list \<Rightarrow> response \<times> stub \<times> Transaction option" where
  "transferUTXO_tx L s args =
     (if length args \<noteq> 3 then (Error ''Incorrect number of arguments. Expecting 3'', s, None)
      else
        let addrFrom = args ! 0;
            amount = ParseFloat L (args ! 2)
        in case GetStateByRange s of
             Inl e \<Rightarrow> (Error e, s, None)
           | Inr resultsIterator \<Rightarrow>
               (let txid = GetTxID s
                in case transferUTXO_loop L addrFrom amount resultsIterator ([], [], f_zero L) of
                     Inl e \<Rightarrow> (Error e, s, None)
                   | Inr (ins, utfoKeysToRemove, currValue) \<Rightarrow>
                       if f_less L currValue amount
                       then (Error ''No enough amount to spend'', s, None)
                       else
                         (let s1 = deleteSpent s utfoKeysToRemove;
                              (utxo1, utxo2, outs) = makeOutputs L txid args amount currValue;
                              s2 = snd (storeUTXO L s1 txid utxo1);
                              s3 = snd (storeUTXO L s2 txid utxo2);
                              transaction = makeTransaction txid ins outs;
                              s4 = snd (storeTransaction L s3 txid transaction)
                          in (Success None, s4, Some transaction))))"

definition transferUTXO :: "'f golib \<Rightarrow> stub \<Rightarrow> string list \<Rightarrow> response \<times> stub" where
  "transferUTXO L s args = (case transferUTXO_tx L s args of (r, s', t) \<Rightarrow> (r, s'))"

section \<open>Notions the properties are stated with\<close>

text \<open>What both scanning loops decode a stored value to: a fresh zero-valued \<open>UTXO\<close>
  after \<open>json.Unmarshal\<close>, with the error dropped.\<close>

definition decodeUTXO :: "'f golib \<Rightarrow> string \<Rightarrow> UTXO" where
  "decodeUTXO L val = snd (json_Unmarshal_UTXO L val zero_UTXO)"

text \<open>The float sum of the amounts of a list of UTXOs, added from the left starting at \<open>0.0\<close>,
  which is how the selection loop accumulates \<open>currValue\<close>.\<close>

definition sumAmounts :: "'f golib \<Rightarrow> UTXO list \<Rightarrow> 'f" where
  "sumAmounts L us = foldl (f_add L) (f_zero L) (map (\<lambda>u. ParseFloat L (Amount u)) us)"

text \<open>The total of a full scan: the amounts of all scanned entries that pass the ownership
  check for the address.\<close>

definition spendableTotal :: "'f golib \<Rightarrow> string \<Rightarrow> (string \<times> string) list \<Rightarrow> 'f" where
  "spendableTotal L address kvs =
     sumAmounts L (map (\<lambda>kv. decodeUTXO L (snd kv))
                     (filter (\<lambda>kv. checkUTXOOwnerShip (decodeUTXO L (snd kv)) address) kvs))"

text \<open>The JSON array \<open>queryUTXOByAddr\<close> writes for a list of entries.\<close>

definition renderMembers :: "(string \<times> string) list \<Rightarrow> string" where
  "renderMembers es =
     fst (foldl (\<lambda>bw kv. (writeMember (fst bw) (snd bw) (fst kv) (snd kv), True)) (''['', False) es)
       @ '']''"

text \<open>
  Replaying a list of mutating calls on a stub with \<open>PutState\<close> and \<open>DelState\<close>:
  the error value each call returns, in order, and the stub after the last one. It says
  which calls a run issued and what they returned to the chaincode.
\<close>

fun runCalls :: "stub \<Rightarrow> call list \<Rightarrow> string option list \<times> stub" where
  "runCalls s [] = ([], s)"
| "runCalls s (PutStateCall key val # cs) =
     (fst (PutState s key val) # fst (runCalls (snd (PutState s key val)) cs),
      snd (runCalls (snd (PutState s key val)) cs))"
| "runCalls s (DelStateCall key # cs) =
     (fst (DelState s key) # fst (runCalls (snd (DelState s key)) cs),
      snd (runCalls (snd (DelState s key)) cs))"

section \<open>A reference instance of the library\<close>

text \<open>
  An executable instance of the library record, used to evaluate the model at concrete
  inputs. Float values are rationals with exact arithmetic; it agrees with Go wherever
  the values involved are plain decimal numerals that \<open>float64\<close> compares and adds
  as the rationals do. Strings that \<open>strconv.ParseFloat\<close> also accepts (exponents,
  hexadecimal, infinities, NaN) are not parsed and are not used below. The JSON codec
  writes and reads flat objects of string members without escapes and without white
  space, which is what \<open>json.Marshal\<close> produces for the records used below.
\<close>

definition is_digit :: "char \<Rightarrow> bool" where
  "is_digit c = (48 \<le> (of_char c :: nat) \<and> (of_char c :: nat) \<le> 57)"

definition digits_val :: "string \<Rightarrow> nat" where
  "digits_val ds = foldl (\<lambda>a c. 10 * a + (of_char c - 48)) 0 ds"

definition dec_unsigned :: "string \<Rightarrow> rat option" where
  "dec_unsigned s =
     (let ip = takeWhile is_digit s; r = dropWhile is_digit s
      in case r of
           [] \<Rightarrow> (if ip = [] then None else Some (of_nat (digits_val ip)))
         | c # fp \<Rightarrow>
             (if c = CHR ''.'' \<and> list_all is_digit fp \<and> ip @ fp \<noteq> []
              then Some (of_nat (digits_val ip) + of_nat (digits_val fp) / 10 ^ length fp)
              else None))"

text \<open>A string that does not parse gives the value 0, as \<open>ParseFloat\<close> does on a syntax error.\<close>

definition ref_ParseFloat :: "string \<Rightarrow> rat" where
  "ref_ParseFloat s =
     (case s of
        [] \<Rightarrow> 0
      | c # t \<Rightarrow>
          (if c = CHR ''-'' then (case dec_unsigned t of None \<Rightarrow> 0 | Some q \<Rightarrow> - q)
           else if c = CHR ''+'' then (case dec_unsigned t of None \<Rightarrow> 0 | Some q \<Rightarrow> q)
           else (case dec_unsigned s of None \<Rightarrow> 0 | Some q \<Rightarrow> q)))"

text \<open>Two decimals, rounding half to even, with the sign kept.\<close>

definition hundredths :: "rat \<Rightarrow> nat" where
  "hundredths a =
     (let h = nat \<lfloor>a * 100\<rfloor>; d = a * 100 - of_nat h
      in if d < 1 / 2 then h else if 1 / 2 < d then h + 1 else if even h then h else h + 1)"

definition ref_FormatFloat :: "rat \<Rightarrow> string" where
  "ref_FormatFloat x =
     (let h = hundredths \<bar>x\<bar>
      in (if x < 0 then ''-'' else []) @ Itoa (h div 100) @ ''.''
           @ Itoa (h mod 100 div 10) @ Itoa (h mod 10))"

definition ref_member :: "string \<times> string \<Rightarrow> string" where
  "ref_member m = [CHR 0x22] @ fst m @ [CHR 0x22] @ '':'' @ [CHR 0x22] @ snd m @ [CHR 0x22]"

fun commaJoin :: "string list \<Rightarrow> string" where
  "commaJoin [] = []"
| "commaJoin [x] = x"
| "commaJoin (x # y # zs) = x @ '','' @ commaJoin (y # zs)"

definition ref_json_object :: "(string \<times> string) list \<Rightarrow> string" where
  "ref_json_object ms = ''{'' @ commaJoin (map ref_member ms) @ ''}''"

datatype token = TStr string | TPunct char

text \<open>The second argument is the string literal read so far, if the lexer is inside one.\<close>

fun lex :: "string \<Rightarrow> string option \<Rightarrow> token list option" where
  "lex [] None = Some []"
| "lex [] (Some a) = None"
| "lex (c # cs) None =
     (if c = CHR 0x22 then lex cs (Some [])
      else if c \<in> set ''{}:,'' then map_option ((#) (TPunct c)) (lex cs None)
      else None)"
| "lex (c # cs) (Some a) =
     (if c = CHR 0x22 then map_option ((#) (TStr a)) (lex cs None)
      else if c = CHR 0x5C then None
      else lex cs (Some (a @ [c])))"

fun pairs :: "token list \<Rightarrow> (string \<times> string) list option" where
  "pairs (TStr k # TPunct a # TStr v # TPunct b # rest) =
     (if a = CHR '':'' then
        (if b = CHR '','' then
           (case rest of [] \<Rightarrow> None | t # ts \<Rightarrow> map_option ((#) (k, v)) (pairs rest))
         else if b = CHR ''}'' then (case rest of [] \<Rightarrow> Some [(k, v)] | t # ts \<Rightarrow> None)
         else None)
      else None)"
| "pairs ts = None"

definition ref_parse :: "string \<Rightarrow> (string \<times> string) list option" where
  "ref_parse data =
     (case lex data None of
        None \<Rightarrow> None
      | Some [] \<Rightarrow> None
      | Some (t # ts) \<Rightarrow>
          (if t = TPunct (CHR ''{'') then (if ts = [TPunct (CHR ''}'')] then Some [] else pairs ts)
           else None))"

text \<open>The last member with the tag wins, as in \<open>encoding/json\<close>.\<close>

definition ref_json_members :: "string \<Rightarrow> string \<Rightarrow> string option" where
  "ref_json_members data tag =
     (case ref_parse data of None \<Rightarrow> None | Some ms \<Rightarrow> map_of (rev ms) tag)"

definition ref_json_error :: "string \<Rightarrow> string option" where
  "ref_json_error data =
     (case ref_parse data of None \<Rightarrow> Some ''invalid JSON'' | Some ms \<Rightarrow> None)"

definition ref_lib :: "rat golib" where
  "ref_lib = \<lparr>ParseFloat = ref_ParseFloat, FormatFloat = ref_FormatFloat, f_zero = 0,
              f_add = (+), f_sub = (-), f_less = (<),
              json_object = ref_json_object, json_members = ref_json_members,
              json_error = ref_json_error\<rparr>"

section \<open>Concrete ledgers\<close>

text \<open>A stub on which no store call fails, with the given transaction id and ledger.\<close>

definition mkStub :: "string \<Rightarrow> (string \<times> string) list \<Rightarrow> stub" where
  "mkStub txid kvs =
     \<lparr>TxID = txid, State = kvs, GetStateByRange_err = None, Next_err = (\<lambda>k. None),
      GetState_err = (\<lambda>k. None), PutState_err = (\<lambda>k v. None), DelState_err = (\<lambda>k. None),
      Calls = []\<rparr>"

text \<open>The ledger after \<open>initState\<close> ran as transaction \<open>tx0\<close> on the empty ledger.\<close>

definition genesis :: "(string \<times> string) list" where
  "genesis = State (snd (initState ref_lib (mkStub ''tx0'' [])))"

text \<open>The same ledger with one more entry under a UTXO key, whose value is not JSON.\<close>

definition garbled :: "(string \<times> string) list" where
  "garbled = genesis @ [(''tx9:1'', ''garbage'')]"

section \<open>Properties\<close>

subsection \<open>The library does not see unexported fields\<close>

lemma Itoa_MaxUint32: "Itoa MaxUint32 = ''4294967295''"
  by (simp add: Itoa.simps MaxUint32_def)

lemma Unmarshal_keeps_inOrOut:
  "inOrOut (snd (json_Unmarshal_UTXO L data u)) = inOrOut u"
  by (simp add: json_Unmarshal_UTXO_def)

lemma decodeUTXO_inOrOut: "inOrOut (decodeUTXO L val) = []"
  by (simp add: decodeUTXO_def Unmarshal_keeps_inOrOut zero_UTXO_def)

lemma decoded_never_spendable: "checkUTXOOwnerShip (decodeUTXO L val) address = False"
  by (simp add: checkUTXOOwnerShip_def decodeUTXO_inOrOut)

lemma Marshal_Transaction_const:
  "json_Marshal_Transaction L t = json_Marshal_Transaction L t'"
  by (simp add: json_Marshal_Transaction_def)

subsection \<open>Store calls\<close>

lemma Calls_PutState: "Calls (snd (PutState s k v)) = Calls s @ [PutStateCall k v]"
  by (simp add: PutState_def split: option.splits)

lemma Calls_DelState: "Calls (snd (DelState s k)) = Calls s @ [DelStateCall k]"
  by (simp add: DelState_def split: option.splits)

lemma Calls_deleteSpent: "Calls (deleteSpent s ks) = Calls s @ map DelStateCall ks"
  by (induction ks arbitrary: s) (simp_all add: Calls_DelState)

lemma Calls_storeUTXO:
  "Calls (snd (storeUTXO L s txid u)) =
     Calls s @ [PutStateCall (txid @ '':'' @ Index u) (json_Marshal_UTXO L u)]"
  by (simp add: storeUTXO_def Calls_PutState)

lemma Calls_storeTransaction:
  "Calls (snd (storeTransaction L s txid t)) =
     Calls s @ [PutStateCall txid (json_Marshal_Transaction L t)]"
  by (simp add: storeTransaction_def Calls_PutState)

lemma GetStateByRange_no_errors:
  assumes "GetStateByRange_err s = None" and "\<And>k. Next_err s k = None"
  shows "GetStateByRange s = Inr (map Inr (scanAll s))"
  using assms by (simp add: GetStateByRange_def)

lemma GetStateByRange_write_errors:
  "GetStateByRange (s\<lparr>PutState_err := pe, DelState_err := de\<rparr>) = GetStateByRange s"
  by (cases "GetStateByRange_err s") (simp_all add: GetStateByRange_def scanAll_def)

subsection \<open>The selection loop\<close>

declare transferUTXO_loop.simps(2) [simp del]

lemma transferUTXO_loop_no_iteration:
  "\<not> f_less L c amt \<Longrightarrow> transferUTXO_loop L a amt it (ins, ks, c) = Inr (ins, ks, c)"
  by (cases it) (simp_all add: transferUTXO_loop.simps(2))

lemma transferUTXO_loop_error:
  "f_less L c amt \<Longrightarrow> transferUTXO_loop L a amt (Inl e # rest) (ins, ks, c) = Inl e"
  by (simp add: transferUTXO_loop.simps(2))

lemma transferUTXO_loop_skip:
  "f_less L c amt \<Longrightarrow> \<not> checkUTXOOwnerShip (decodeUTXO L val) a \<Longrightarrow>
   transferUTXO_loop L a amt (Inr (key, val) # rest) (ins, ks, c)
     = transferUTXO_loop L a amt rest (ins, ks, c)"
  by (simp add: decodeUTXO_def transferUTXO_loop.simps(2))

lemma transferUTXO_loop_take:
  "f_less L c amt \<Longrightarrow> checkUTXOOwnerShip (decodeUTXO L val) a \<Longrightarrow>
   transferUTXO_loop L a amt (Inr (key, val) # rest) (ins, ks, c)
     = transferUTXO_loop L a amt rest
         (ins @ [(decodeUTXO L val)\<lparr>inOrOut := ''in''\<rparr>], ks @ [key],
          f_add L c (ParseFloat L (Amount (decodeUTXO L val))))"
  by (simp add: decodeUTXO_def Let_def transferUTXO_loop.simps(2))

lemma transferUTXO_loop_sum:
  assumes "transferUTXO_loop L a amt it (ins, ks, c) = Inr (ins', ks', c')"
    and "c = sumAmounts L ins"
  shows "c' = sumAmounts L ins'"
  using assms
proof (induction it arbitrary: ins ks c)
  case Nil
  from Nil.prems(1) have "ins' = ins" and "c' = c" by simp_all
  with Nil.prems(2) show ?case by simp
next
  case (Cons r rest)
  show ?case
  proof (cases "f_less L c amt")
    case False
    from Cons.prems(1) have "ins' = ins" and "c' = c"
      by (simp_all add: transferUTXO_loop_no_iteration[OF False])
    with Cons.prems(2) show ?thesis by simp
  next
    case True
    show ?thesis
    proof (cases r)
      case (Inl e)
      with Cons.prems(1) show ?thesis by (simp add: transferUTXO_loop_error[OF True])
    next
      case (Inr kv)
      obtain key val where kv: "kv = (key, val)" by (cases kv)
      show ?thesis
      proof (cases "checkUTXOOwnerShip (decodeUTXO L val) a")
        case False
        from Cons.prems(1) have "transferUTXO_loop L a amt rest (ins, ks, c) = Inr (ins', ks', c')"
          by (simp add: Inr kv transferUTXO_loop_skip[OF True False])
        from Cons.IH[OF this Cons.prems(2)] show ?thesis .
      next
        case chk: True
        let ?u' = "(decodeUTXO L val)\<lparr>inOrOut := ''in''\<rparr>"
        let ?c' = "f_add L c (ParseFloat L (Amount (decodeUTXO L val)))"
        from Cons.prems(1)
        have step: "transferUTXO_loop L a amt rest (ins @ [?u'], ks @ [key], ?c') = Inr (ins', ks', c')"
          by (simp add: Inr kv transferUTXO_loop_take[OF True chk])
        have "?c' = sumAmounts L (ins @ [?u'])"
          by (simp add: Cons.prems(2) sumAmounts_def)
        from Cons.IH[OF step this] show ?thesis .
      qed
    qed
  qed
qed

text \<open>What the body does once the selection is known (lines 397-427).\<close>

lemma transferUTXO_tx_after_selection:
  assumes "length args = 3" and "GetStateByRange s = Inr it"
    and "transferUTXO_loop L (args ! 0) (ParseFloat L (args ! 2)) it ([], [], f_zero L)
           = Inr (ins, ks, c)"
    and "\<not> f_less L c (ParseFloat L (args ! 2))"
  shows "transferUTXO_tx L s args =
     (Success None,
      snd (storeTransaction L
        (snd (storeUTXO L
          (snd (storeUTXO L (deleteSpent s ks) (TxID s)
             (fst (makeOutputs L (TxID s) args (ParseFloat L (args ! 2)) c))))
          (TxID s) (fst (snd (makeOutputs L (TxID s) args (ParseFloat L (args ! 2)) c)))))
        (TxID s)
        (makeTransaction (TxID s) ins
           (snd (snd (makeOutputs L (TxID s) args (ParseFloat L (args ! 2)) c))))),
      Some (makeTransaction (TxID s) ins
              (snd (snd (makeOutputs L (TxID s) args (ParseFloat L (args ! 2)) c)))))"
  unfolding transferUTXO_tx_def Let_def GetTxID_def
  using assms by (simp add: case_prod_beta)

lemma transferUTXO_tx_wrong_arity:
  assumes "length args \<noteq> 3"
  shows "transferUTXO_tx L s args = (Error ''Incorrect number of arguments. Expecting 3'', s, None)"
  using assms by (simp add: transferUTXO_tx_def)

lemma transferUTXO_tx_range_error:
  assumes "length args = 3" and "GetStateByRange s = Inl e"
  shows "transferUTXO_tx L s args = (Error e, s, None)"
  unfolding transferUTXO_tx_def Let_def GetTxID_def
  using assms by simp

lemma transferUTXO_tx_next_error:
  assumes "length args = 3" and "GetStateByRange s = Inr it"
    and "transferUTXO_loop L (args ! 0) (ParseFloat L (args ! 2)) it ([], [], f_zero L) = Inl e"
  shows "transferUTXO_tx L s args = (Error e, s, None)"
  unfolding transferUTXO_tx_def Let_def GetTxID_def
  using assms by simp

lemma transferUTXO_tx_insufficient:
  assumes "length args = 3" and "GetStateByRange s = Inr it"
    and "transferUTXO_loop L (args ! 0) (ParseFloat L (args ! 2)) it ([], [], f_zero L)
           = Inr (ins, ks, c)"
    and "f_less L c (ParseFloat L (args ! 2))"
  shows "transferUTXO_tx L s args = (Error ''No enough amount to spend'', s, None)"
  unfolding transferUTXO_tx_def Let_def GetTxID_def
  using assms by simp

lemma transferUTXO_tx_success:
  assumes "fst (transferUTXO_tx L s args) = Success None"
  obtains it ins ks c where "length args = 3" and "GetStateByRange s = Inr it"
    and "transferUTXO_loop L (args ! 0) (ParseFloat L (args ! 2)) it ([], [], f_zero L)
           = Inr (ins, ks, c)"
    and "\<not> f_less L c (ParseFloat L (args ! 2))"
proof -
  have len: "length args = 3"
    using assms transferUTXO_tx_wrong_arity[of args L s] by (cases "length args = 3") simp_all
  obtain it where it: "GetStateByRange s = Inr it"
    using assms transferUTXO_tx_range_error[OF len, of s _ L]
    by (cases "GetStateByRange s") simp_all
  obtain sel where sel:
    "transferUTXO_loop L (args ! 0) (ParseFloat L (args ! 2)) it ([], [], f_zero L) = Inr sel"
    using assms transferUTXO_tx_next_error[OF len it, of L]
    by (cases "transferUTXO_loop L (args ! 0) (ParseFloat L (args ! 2)) it ([], [], f_zero L)")
       simp_all
  obtain ins ks c where s3: "sel = (ins, ks, c)" by (cases sel)
  from sel s3
  have loop: "transferUTXO_loop L (args ! 0) (ParseFloat L (args ! 2)) it ([], [], f_zero L)
          = Inr (ins, ks, c)" by simp
  have nl: "\<not> f_less L c (ParseFloat L (args ! 2))"
    using assms transferUTXO_tx_insufficient[OF len it loop] by auto
  from that[OF len it loop nl] show thesis .
qed


lemma transferUTXO_fst: "fst (transferUTXO L s args) = fst (transferUTXO_tx L s args)"
  by (simp add: transferUTXO_def split: prod.splits)

lemma transferUTXO_snd: "snd (transferUTXO L s args) = fst (snd (transferUTXO_tx L s args))"
  by (simp add: transferUTXO_def split: prod.splits)

lemma makeOutputs_utxo1:
  "fst (makeOutputs L txid args amount c) = makeUTXO txid ''1'' (args ! 2) (args ! 1) ''out''"
  by (simp add: makeOutputs_def Let_def)

lemma Index_makeUTXO: "Index (makeUTXO txid i amt addr io) = i"
  by (simp add: makeUTXO_def)


subsection \<open>No decoded entry passes the ownership check\<close>

lemma transferUTXO_loop_selects_nothing:
  "transferUTXO_loop L a amt (map Inr kvs) (ins, ks, c) = Inr (ins, ks, c)"
proof (induction kvs)
  case Nil
  show ?case by simp
next
  case (Cons kv kvs)
  obtain key val where kv: "kv = (key, val)" by (cases kv)
  show ?case
  proof (cases "f_less L c amt")
    case True
    show ?thesis
      using Cons.IH by (simp add: kv transferUTXO_loop_skip[OF True] decoded_never_spendable)
  next
    case False
    then show ?thesis by (rule transferUTXO_loop_no_iteration)
  qed
qed

lemma spendableTotal_zero: "spendableTotal L address kvs = f_zero L"
  by (simp add: spendableTotal_def decoded_never_spendable sumAmounts_def)

subsection \<open>Concrete values\<close>

lemma genesis_eq:
  "genesis = [(''tx0:1'', json_Marshal_UTXO ref_lib (makeUTXO ''tx0'' ''1'' ''50'' ''User A'' ''out'')),
              (''tx0'', ref_json_object [])]"
  by (simp add: genesis_def initState_def initState_tx_def Let_def storeUTXO_def
      storeTransaction_def PutState_def GetTxID_def mkStub_def makeUTXO_def
      json_Marshal_Transaction_def ref_lib_def)

lemma ref_ParseFloat_examples:
  "ref_ParseFloat ''0'' = 0" "ref_ParseFloat ''-5'' = - 5" "ref_ParseFloat ''abc'' = 0"
  "ref_ParseFloat ''20'' = 20" "ref_ParseFloat ''-0.001'' = - (1 / 1000)"
  "ref_ParseFloat ''0.00'' = 0" "ref_ParseFloat ''5.00'' = 5"
  by (simp_all add: ref_ParseFloat_def dec_unsigned_def is_digit_def digits_val_def)

lemma ref_FormatFloat_examples:
  "ref_FormatFloat 5 = ''5.00''" "ref_FormatFloat (1 / 1000) = ''0.00''"
  by (simp_all add: ref_FormatFloat_def hundredths_def Itoa.simps Let_def)

lemma ref_lib_simps:
  "ParseFloat ref_lib = ref_ParseFloat" "FormatFloat ref_lib = ref_FormatFloat"
  "f_zero ref_lib = 0" "f_add ref_lib = (+)" "f_sub ref_lib = (-)" "f_less ref_lib = (<)"
  "json_object ref_lib = ref_json_object" "json_members ref_lib = ref_json_members"
  "json_error ref_lib = ref_json_error"
  by (simp_all add: ref_lib_def)

lemma mkStub_simps:
  "TxID (mkStub txid kvs) = txid" "State (mkStub txid kvs) = kvs"
  "GetStateByRange_err (mkStub txid kvs) = None" "Next_err (mkStub txid kvs) k = None"
  "GetState_err (mkStub txid kvs) k = None" "PutState_err (mkStub txid kvs) k v = None"
  "DelState_err (mkStub txid kvs) k = None" "Calls (mkStub txid kvs) = []"
  by (simp_all add: mkStub_def)

subsection \<open>The calls a successful transfer issues\<close>

lemma makeOutputs_utxo2:
  "fst (snd (makeOutputs L txid args amount c)) =
     (if f_less L amount c
      then makeUTXO txid ''2'' (FormatFloat L (f_sub L c amount)) (args ! 0) ''out''
      else zero_UTXO)"
  by (simp add: makeOutputs_def Let_def)

lemma makeOutputs_outputs:
  "snd (snd (makeOutputs L txid args amount c)) =
     (if f_less L amount c
      then [makeUTXO txid ''1'' (args ! 2) (args ! 1) ''out'',
            makeUTXO txid ''2'' (FormatFloat L (f_sub L c amount)) (args ! 0) ''out'']
      else [makeUTXO txid ''1'' (args ! 2) (args ! 1) ''out''])"
  by (simp add: makeOutputs_def Let_def)

lemma transferUTXO_tx_calls:
  assumes "length args = 3" and "GetStateByRange s = Inr it"
    and "transferUTXO_loop L (args ! 0) (ParseFloat L (args ! 2)) it ([], [], f_zero L)
           = Inr (ins, ks, c)"
    and "\<not> f_less L c (ParseFloat L (args ! 2))"
  shows "Calls (fst (snd (transferUTXO_tx L s args))) =
     Calls s @ map DelStateCall ks @
       [PutStateCall (TxID s @ '':1'')
          (json_Marshal_UTXO L (makeUTXO (TxID s) ''1'' (args ! 2) (args ! 1) ''out'')),
        PutStateCall
          (TxID s @ '':'' @ Index (fst (snd (makeOutputs L (TxID s) args (ParseFloat L (args ! 2)) c))))
          (json_Marshal_UTXO L (fst (snd (makeOutputs L (TxID s) args (ParseFloat L (args ! 2)) c)))),
        PutStateCall (TxID s) (json_object L [])]"
  by (simp add: transferUTXO_tx_after_selection[OF assms] Calls_storeTransaction
      Calls_storeUTXO Calls_deleteSpent makeOutputs_utxo1 Index_makeUTXO
      json_Marshal_Transaction_def)

lemma GetStateByRange_Inr:
  "GetStateByRange_err s = None \<Longrightarrow> \<exists>it. GetStateByRange s = Inr it"
  by (simp add: GetStateByRange_def)

text \<open>
  C1, as amended. \<open>transferUTXO\<close> does not validate the amount: the error result of
  \<open>strconv.ParseFloat\<close> is dropped and the value is never compared with zero. When the
  parsed value is not greater than zero (a non-positive number, or the 0 that a syntax
  error yields), the selection loop is not entered, and with three arguments and a
  working range query the call succeeds: it deletes nothing and writes the recipient's
  UTXO under \<open>txid:1\<close>, with the amount text as given, and the transaction record
  under \<open>txid\<close>.
\<close>

theorem transferUTXO_nonpositive_amount_succeeds:
  assumes "length args = 3" and "GetStateByRange_err s = None"
    and "\<not> f_less L (f_zero L) (ParseFloat L (args ! 2))"
  shows "fst (transferUTXO L s args) = Success None
     \<and> (\<forall>k. DelStateCall k \<notin> set (drop (length (Calls s)) (Calls (snd (transferUTXO L s args)))))
     \<and> PutStateCall (TxID s @ '':1'')
          (json_Marshal_UTXO L (makeUTXO (TxID s) ''1'' (args ! 2) (args ! 1) ''out''))
        \<in> set (drop (length (Calls s)) (Calls (snd (transferUTXO L s args))))
     \<and> PutStateCall (TxID s) (json_object L [])
        \<in> set (drop (length (Calls s)) (Calls (snd (transferUTXO L s args))))"
proof -
  from assms(2) obtain it where it: "GetStateByRange s = Inr it"
    using GetStateByRange_Inr by blast
  have loop: "transferUTXO_loop L (args ! 0) (ParseFloat L (args ! 2)) it ([], [], f_zero L)
      = Inr ([], [], f_zero L)"
    using assms(3) by (rule transferUTXO_loop_no_iteration)
  have r: "fst (transferUTXO L s args) = Success None"
    by (simp add: transferUTXO_fst transferUTXO_tx_after_selection[OF assms(1) it loop assms(3)])
  have c: "drop (length (Calls s)) (Calls (snd (transferUTXO L s args))) =
       [PutStateCall (TxID s @ '':1'')
          (json_Marshal_UTXO L (makeUTXO (TxID s) ''1'' (args ! 2) (args ! 1) ''out'')),
        PutStateCall
          (TxID s @ '':'' @ Index (fst (snd (makeOutputs L (TxID s) args (ParseFloat L (args ! 2)) (f_zero L)))))
          (json_Marshal_UTXO L (fst (snd (makeOutputs L (TxID s) args (ParseFloat L (args ! 2)) (f_zero L))))),
        PutStateCall (TxID s) (json_object L [])]"
    by (simp add: transferUTXO_snd transferUTXO_tx_calls[OF assms(1) it loop assms(3)])
  show ?thesis by (simp add: r c)
qed


subsection \<open>Transfers on the genesis ledger with the reference library\<close>

lemma PutState_err_PutState: "PutState_err (snd (PutState s k v)) = PutState_err s"
  by (simp add: PutState_def split: option.splits)

lemma State_PutState:
  "PutState_err s k v = None \<Longrightarrow> State (snd (PutState s k v)) = AList.update k v (State s)"
  by (simp add: PutState_def)

lemma State_PutState_failed:
  "PutState_err s k v = Some e \<Longrightarrow> State (snd (PutState s k v)) = State s"
  by (simp add: PutState_def)

lemma genesis_keys: "map fst genesis = [''tx0:1'', ''tx0'']"
  by (simp add: genesis_eq)

lemma transfer_genesis_nothing_selected:
  assumes "\<not> 0 < ref_ParseFloat x"
  shows "transferUTXO_tx ref_lib (mkStub ''tx1'' genesis) [a, b, x] =
     (Success None,
      snd (storeTransaction ref_lib
        (snd (storeUTXO ref_lib
          (snd (storeUTXO ref_lib (mkStub ''tx1'' genesis) ''tx1''
             (fst (makeOutputs ref_lib ''tx1'' [a, b, x] (ref_ParseFloat x) 0))))
          ''tx1'' (fst (snd (makeOutputs ref_lib ''tx1'' [a, b, x] (ref_ParseFloat x) 0)))))
        ''tx1''
        (makeTransaction ''tx1'' []
           (snd (snd (makeOutputs ref_lib ''tx1'' [a, b, x] (ref_ParseFloat x) 0))))),
      Some (makeTransaction ''tx1'' []
              (snd (snd (makeOutputs ref_lib ''tx1'' [a, b, x] (ref_ParseFloat x) 0)))))"
proof -
  let ?s = "mkStub ''tx1'' genesis"
  have len: "length [a, b, x] = 3" by simp
  have rng: "GetStateByRange ?s = Inr (map Inr (scanAll ?s))"
    by (rule GetStateByRange_no_errors) (simp_all add: mkStub_simps)
  have loop: "transferUTXO_loop ref_lib ([a, b, x] ! 0) (ParseFloat ref_lib ([a, b, x] ! 2))
                (map Inr (scanAll ?s)) ([], [], f_zero ref_lib) = Inr ([], [], f_zero ref_lib)"
    by (rule transferUTXO_loop_selects_nothing)
  have amt: "\<not> f_less ref_lib (f_zero ref_lib) (ParseFloat ref_lib ([a, b, x] ! 2))"
    using assms by (simp add: ref_lib_simps)
  from transferUTXO_tx_after_selection[OF len rng loop amt]
  show ?thesis by (simp add: ref_lib_simps mkStub_simps)
qed

lemma State_store_simps:
  "PutState_err s = (\<lambda>k v. None) \<Longrightarrow>
     State (snd (storeUTXO L s txid u)) =
       AList.update (txid @ '':'' @ Index u) (json_Marshal_UTXO L u) (State s)"
  "PutState_err s = (\<lambda>k v. None) \<Longrightarrow>
     State (snd (storeTransaction L s txid t)) = AList.update txid (json_object L []) (State s)"
  "PutState_err (snd (storeUTXO L s txid u)) = PutState_err s"
  "PutState_err (snd (storeTransaction L s txid t)) = PutState_err s"
  by (simp_all add: storeUTXO_def storeTransaction_def State_PutState PutState_err_PutState
      json_Marshal_Transaction_def)

lemma PutState_err_mkStub: "PutState_err (mkStub txid kvs) = (\<lambda>k v. None)"
  by (simp add: mkStub_def)

lemma keys_after_transfer_minus5:
  "map fst (State (snd (transferUTXO ref_lib (mkStub ''tx1'' genesis) [''User A'', ''User B'', ''-5'']))) =
     [''tx0:1'', ''tx0'', ''tx1:1'', ''tx1:2'', ''tx1'']"
proof -
  have t: "\<not> 0 < ref_ParseFloat ''-5''" by (simp add: ref_ParseFloat_examples)
  show ?thesis
    unfolding transferUTXO_snd transfer_genesis_nothing_selected[OF t]
    by (simp add: State_store_simps PutState_err_mkStub mkStub_simps ref_ParseFloat_examples
        makeOutputs_utxo1 makeOutputs_utxo2 Index_makeUTXO ref_lib_simps genesis_eq)
qed

lemma keys_after_transfer_abc:
  "map fst (State (snd (transferUTXO ref_lib (mkStub ''tx1'' genesis) [''User A'', ''User B'', ''abc'']))) =
     [''tx0:1'', ''tx0'', ''tx1:1'', ''tx1:'', ''tx1'']"
proof -
  have t: "\<not> 0 < ref_ParseFloat ''abc''" by (simp add: ref_ParseFloat_examples)
  show ?thesis
    unfolding transferUTXO_snd transfer_genesis_nothing_selected[OF t]
    by (simp add: State_store_simps PutState_err_mkStub mkStub_simps ref_ParseFloat_examples
        makeOutputs_utxo1 makeOutputs_utxo2 Index_makeUTXO ref_lib_simps genesis_eq zero_UTXO_def)
qed

text \<open>
  C1 as stated fails. On the genesis ledger, a transfer of \<open>-5\<close> and a transfer whose
  amount is the text \<open>abc\<close> both return success and add three records to the store.
\<close>

theorem transferUTXO_nonpositive_amount_counterexample:
  "ref_ParseFloat ''-5'' \<le> 0
   \<and> fst (transferUTXO ref_lib (mkStub ''tx1'' genesis) [''User A'', ''User B'', ''-5''])
       = Success None
   \<and> map fst (State (snd (transferUTXO ref_lib (mkStub ''tx1'' genesis)
                             [''User A'', ''User B'', ''-5''])))
       = map fst genesis @ [''tx1:1'', ''tx1:2'', ''tx1'']
   \<and> dec_unsigned ''abc'' = None
   \<and> fst (transferUTXO ref_lib (mkStub ''tx1'' genesis) [''User A'', ''User B'', ''abc''])
       = Success None
   \<and> map fst (State (snd (transferUTXO ref_lib (mkStub ''tx1'' genesis)
                             [''User A'', ''User B'', ''abc''])))
       = map fst genesis @ [''tx1:1'', ''tx1:'', ''tx1'']"
proof -
  have t5: "\<not> 0 < ref_ParseFloat ''-5''" and tabc: "\<not> 0 < ref_ParseFloat ''abc''"
    by (simp_all add: ref_ParseFloat_examples)
  have "dec_unsigned ''abc'' = None"
    by (simp add: dec_unsigned_def is_digit_def)
  then show ?thesis
    by (simp add: keys_after_transfer_minus5 keys_after_transfer_abc genesis_keys
        transferUTXO_fst transfer_genesis_nothing_selected[OF t5]
        transfer_genesis_nothing_selected[OF tabc] ref_ParseFloat_examples)
qed

theorem transferUTXO_nonpositive_amount_succeeds_witness:
  "length [''User A'', ''User B'', ''-5''] = 3
   \<and> GetStateByRange_err (mkStub ''tx1'' genesis) = None
   \<and> \<not> (0 :: rat) < ref_ParseFloat ''-5''
   \<and> fst (transferUTXO ref_lib (mkStub ''tx1'' genesis) [''User A'', ''User B'', ''-5''])
       = Success None
   \<and> PutStateCall ''tx1:1''
        (json_Marshal_UTXO ref_lib (makeUTXO ''tx1'' ''1'' ''-5'' ''User B'' ''out''))
      \<in> set (Calls (snd (transferUTXO ref_lib (mkStub ''tx1'' genesis)
                            [''User A'', ''User B'', ''-5''])))
   \<and> PutStateCall ''tx1'' (ref_json_object [])
      \<in> set (Calls (snd (transferUTXO ref_lib (mkStub ''tx1'' genesis)
                            [''User A'', ''User B'', ''-5''])))"
proof -
  let ?s = "mkStub ''tx1'' genesis"
  let ?args = "[''User A'', ''User B'', ''-5'']"
  have len: "length ?args = 3" by simp
  have rng: "GetStateByRange_err ?s = None" by (simp add: mkStub_simps)
  have amt: "\<not> f_less ref_lib (f_zero ref_lib) (ParseFloat ref_lib (?args ! 2))"
    by (simp add: ref_lib_simps ref_ParseFloat_examples)
  from transferUTXO_nonpositive_amount_succeeds[OF len rng amt] amt
  show ?thesis by (simp add: mkStub_simps ref_lib_simps)
qed

lemma inputs_makeTransaction: "inputs (makeTransaction i ins outs) = ins"
  and outputs_makeTransaction: "outputs (makeTransaction i ins outs) = outs"
  by (simp_all add: makeTransaction_def)

text \<open>A successful run of the body, taken apart.\<close>

lemma transferUTXO_tx_successE:
  assumes "transferUTXO_tx L s args = (Success None, s', Some t)"
  obtains it ks c where "length args = 3" and "GetStateByRange s = Inr it"
    and "transferUTXO_loop L (args ! 0) (ParseFloat L (args ! 2)) it ([], [], f_zero L)
           = Inr (inputs t, ks, c)"
    and "\<not> f_less L c (ParseFloat L (args ! 2))"
    and "c = sumAmounts L (inputs t)"
    and "outputs t = snd (snd (makeOutputs L (TxID s) args (ParseFloat L (args ! 2)) c))"
    and "s' = fst (snd (transferUTXO_tx L s args))"
proof -
  from assms have "fst (transferUTXO_tx L s args) = Success None" by simp
  then obtain it ins ks c where len: "length args = 3" and it: "GetStateByRange s = Inr it"
    and loop: "transferUTXO_loop L (args ! 0) (ParseFloat L (args ! 2)) it ([], [], f_zero L)
           = Inr (ins, ks, c)"
    and nl: "\<not> f_less L c (ParseFloat L (args ! 2))"
    by (rule transferUTXO_tx_success)
  from transferUTXO_tx_after_selection[OF len it loop nl] assms
  have t: "t = makeTransaction (TxID s) ins
                 (snd (snd (makeOutputs L (TxID s) args (ParseFloat L (args ! 2)) c)))"
    by simp
  have ins: "inputs t = ins" by (simp add: t inputs_makeTransaction)
  have outs: "outputs t = snd (snd (makeOutputs L (TxID s) args (ParseFloat L (args ! 2)) c))"
    by (simp add: t outputs_makeTransaction)
  have c: "c = sumAmounts L (inputs t)"
    using transferUTXO_loop_sum[OF loop] by (simp add: ins sumAmounts_def)
  have s': "s' = fst (snd (transferUTXO_tx L s args))" using assms by simp
  from loop ins have "transferUTXO_loop L (args ! 0) (ParseFloat L (args ! 2)) it ([], [], f_zero L)
           = Inr (inputs t, ks, c)" by simp
  from that[OF len it this nl c outs s'] show thesis .
qed

text \<open>
  C9. Every successful \<open>transferUTXO\<close> issues, after the deletions, exactly three
  \<open>PutState\<close> calls, of which the first two are the calls of \<open>storeUTXO\<close>: for
  \<open>utxo1\<close> under \<open>txid:1\<close> and for \<open>utxo2\<close>, whether or not a change output
  exists. When the total is not greater than the amount (so in particular when the
  two are equal), \<open>utxo2\<close> is the zero value and the second call writes its encoding
  under the key \<open>txid:\<close>, with the empty index.
\<close>

theorem transferUTXO_two_UTXO_writes:
  assumes "transferUTXO_tx L s args = (Success None, s', Some t)"
  shows "\<exists>ks.
     Calls s' = Calls s @ map DelStateCall ks @
       [PutStateCall (TxID s @ '':1'')
          (json_Marshal_UTXO L (makeUTXO (TxID s) ''1'' (args ! 2) (args ! 1) ''out'')),
        (if f_less L (ParseFloat L (args ! 2)) (sumAmounts L (inputs t))
         then PutStateCall (TxID s @ '':2'')
                (json_Marshal_UTXO L
                   (makeUTXO (TxID s) ''2''
                      (FormatFloat L (f_sub L (sumAmounts L (inputs t)) (ParseFloat L (args ! 2))))
                      (args ! 0) ''out''))
         else PutStateCall (TxID s @ '':'') (json_Marshal_UTXO L zero_UTXO)),
        PutStateCall (TxID s) (json_Marshal_Transaction L t)]"
proof -
  from assms obtain it ks c where len: "length args = 3" and it: "GetStateByRange s = Inr it"
    and loop: "transferUTXO_loop L (args ! 0) (ParseFloat L (args ! 2)) it ([], [], f_zero L)
           = Inr (inputs t, ks, c)"
    and nl: "\<not> f_less L c (ParseFloat L (args ! 2))"
    and c: "c = sumAmounts L (inputs t)"
    and s': "s' = fst (snd (transferUTXO_tx L s args))"
    by (rule transferUTXO_tx_successE)
  have "Calls s' = Calls s @ map DelStateCall ks @
       [PutStateCall (TxID s @ '':1'')
          (json_Marshal_UTXO L (makeUTXO (TxID s) ''1'' (args ! 2) (args ! 1) ''out'')),
        (if f_less L (ParseFloat L (args ! 2)) (sumAmounts L (inputs t))
         then PutStateCall (TxID s @ '':2'')
                (json_Marshal_UTXO L
                   (makeUTXO (TxID s) ''2''
                      (FormatFloat L (f_sub L (sumAmounts L (inputs t)) (ParseFloat L (args ! 2))))
                      (args ! 0) ''out''))
         else PutStateCall (TxID s @ '':'') (json_Marshal_UTXO L zero_UTXO)),
        PutStateCall (TxID s) (json_Marshal_Transaction L t)]"
    using c
    by (simp add: s' transferUTXO_tx_calls[OF len it loop nl] json_Marshal_Transaction_def
        makeOutputs_utxo2 Index_makeUTXO zero_UTXO_def)
  then show ?thesis by blast
qed

theorem transferUTXO_two_UTXO_writes_witness:
  "fst (transferUTXO_tx ref_lib (mkStub ''tx1'' genesis) [''User A'', ''User B'', ''0''])
     = Success None
   \<and> (\<exists>ks. Calls (fst (snd (transferUTXO_tx ref_lib (mkStub ''tx1'' genesis)
                                 [''User A'', ''User B'', ''0''])))
         = map DelStateCall ks @
           [PutStateCall ''tx1:1''
              (json_Marshal_UTXO ref_lib (makeUTXO ''tx1'' ''1'' ''0'' ''User B'' ''out'')),
            PutStateCall ''tx1:'' (json_Marshal_UTXO ref_lib zero_UTXO),
            PutStateCall ''tx1'' ''{}''])"
proof -
  have t: "\<not> 0 < ref_ParseFloat ''0''" by (simp add: ref_ParseFloat_examples)
  note run = transfer_genesis_nothing_selected[OF t, of "''User A''" "''User B''"]
  from transferUTXO_two_UTXO_writes[OF run] run
  show ?thesis
    by (simp add: mkStub_simps ref_lib_simps ref_ParseFloat_examples inputs_makeTransaction
        sumAmounts_def json_Marshal_Transaction_def ref_json_object_def)
qed

text \<open>
  C2. When the amounts of all scanned entries that pass the ownership check for the
  sender sum to less than the requested amount, and the scan itself meets no store
  error, \<open>transferUTXO\<close> returns the error "No enough amount to spend" and the stub
  is returned as it was: no key deleted, no record written, no mutating call issued.
\<close>

theorem transferUTXO_insufficient_funds:
  assumes "length args = 3" and "GetStateByRange_err s = None" and "Next_err s = (\<lambda>k. None)"
    and "f_less L (spendableTotal L (args ! 0) (scanAll s)) (ParseFloat L (args ! 2))"
  shows "transferUTXO L s args = (Error ''No enough amount to spend'', s)"
proof -
  have rng: "GetStateByRange s = Inr (map Inr (scanAll s))"
    using assms(2,3) by (simp add: GetStateByRange_no_errors)
  have loop: "transferUTXO_loop L (args ! 0) (ParseFloat L (args ! 2)) (map Inr (scanAll s))
      ([], [], f_zero L) = Inr ([], [], f_zero L)"
    by (rule transferUTXO_loop_selects_nothing)
  have "f_less L (f_zero L) (ParseFloat L (args ! 2))"
    using assms(4) by (simp add: spendableTotal_zero)
  from transferUTXO_tx_insufficient[OF assms(1) rng loop this]
  show ?thesis by (simp add: transferUTXO_def)
qed

theorem transferUTXO_insufficient_funds_witness:
  "spendableTotal ref_lib ''User A'' (scanAll (mkStub ''tx1'' genesis)) = 0
   \<and> (0 :: rat) < ref_ParseFloat ''70''
   \<and> fst (transferUTXO ref_lib (mkStub ''tx1'' genesis) [''User A'', ''User B'', ''70''])
       = Error ''No enough amount to spend''
   \<and> State (snd (transferUTXO ref_lib (mkStub ''tx1'' genesis) [''User A'', ''User B'', ''70'']))
       = genesis
   \<and> Calls (snd (transferUTXO ref_lib (mkStub ''tx1'' genesis) [''User A'', ''User B'', ''70'']))
       = []"
proof -
  let ?s = "mkStub ''tx1'' genesis"
  let ?args = "[''User A'', ''User B'', ''70'']"
  have len: "length ?args = 3" by simp
  have rng: "GetStateByRange_err ?s = None" and nxt: "Next_err ?s = (\<lambda>k. None)"
    by (simp_all add: mkStub_def)
  have p: "ref_ParseFloat ''70'' = 70"
    by (simp add: ref_ParseFloat_def dec_unsigned_def is_digit_def digits_val_def)
  have tot: "spendableTotal ref_lib ''User A'' (scanAll ?s) = 0"
    by (simp add: spendableTotal_zero ref_lib_simps)
  have less: "f_less ref_lib (spendableTotal ref_lib (?args ! 0) (scanAll ?s))
                (ParseFloat ref_lib (?args ! 2))"
    using tot by (simp add: ref_lib_simps p)
  from transferUTXO_insufficient_funds[OF len rng nxt less] tot
  show ?thesis by (simp add: p mkStub_simps)
qed

text \<open>
  C3 at the failing input: a transfer of \<open>0\<close> on the genesis ledger selects nothing,
  so the total equals the amount. The call succeeds and the transaction it builds has
  one output, but two records with UTXO keys are written: the recipient's under
  \<open>tx1:1\<close> and the encoding of the zero-valued \<open>utxo2\<close> under \<open>tx1:\<close>. The
  record written under \<open>tx1\<close> is \<open>{}\<close>.
\<close>

theorem transferUTXO_exact_amount_writes_two_UTXO_records:
  "fst (transferUTXO ref_lib (mkStub ''tx1'' genesis) [''User A'', ''User B'', ''0''])
     = Success None
   \<and> snd (snd (transferUTXO_tx ref_lib (mkStub ''tx1'' genesis) [''User A'', ''User B'', ''0'']))
     = Some (makeTransaction ''tx1'' [] [makeUTXO ''tx1'' ''1'' ''0'' ''User B'' ''out''])
   \<and> State (snd (transferUTXO ref_lib (mkStub ''tx1'' genesis) [''User A'', ''User B'', ''0'']))
     = genesis @
       [(''tx1:1'', json_Marshal_UTXO ref_lib (makeUTXO ''tx1'' ''1'' ''0'' ''User B'' ''out'')),
        (''tx1:'', json_Marshal_UTXO ref_lib zero_UTXO),
        (''tx1'', ''{}'')]
   \<and> filter (\<lambda>k. strings_Contains k '':'') [''tx1:1'', ''tx1:'', ''tx1''] = [''tx1:1'', ''tx1:'']"
proof -
  have t: "\<not> 0 < ref_ParseFloat ''0''" by (simp add: ref_ParseFloat_examples)
  note run = transfer_genesis_nothing_selected[OF t, of "''User A''" "''User B''"]
  have st: "State (snd (transferUTXO ref_lib (mkStub ''tx1'' genesis) [''User A'', ''User B'', ''0'']))
     = genesis @
       [(''tx1:1'', json_Marshal_UTXO ref_lib (makeUTXO ''tx1'' ''1'' ''0'' ''User B'' ''out'')),
        (''tx1:'', json_Marshal_UTXO ref_lib zero_UTXO),
        (''tx1'', ''{}'')]"
    unfolding transferUTXO_snd run
    by (simp add: State_store_simps PutState_err_mkStub mkStub_simps ref_ParseFloat_examples
        makeOutputs_utxo1 makeOutputs_utxo2 Index_makeUTXO ref_lib_simps genesis_eq zero_UTXO_def
        ref_json_object_def)
  show ?thesis
    by (simp add: st transferUTXO_fst run ref_ParseFloat_examples makeOutputs_outputs
        ref_lib_simps)
qed

text \<open>
  C6 at the failing input: \<open>initState\<close> on the empty ledger, for any transaction id and
  any behaviour of the library. The call succeeds; the store then holds the UTXO record
  under \<open>txid:1\<close>, with amount \<open>50\<close> and address \<open>User A\<close>, and under \<open>txid\<close>
  the encoding of a struct without exported fields (\<open>{}\<close> in the reference library),
  which is also what \<open>queryTransaction\<close> returns. The transaction with the coinbase
  input and the single output exists only as the value the body builds.
\<close>

theorem initState_stores_empty_transaction_record:
  "fst (initState L (mkStub txid [])) = Success None
   \<and> State (snd (initState L (mkStub txid []))) =
       [(txid @ '':1'', json_object L [(''txid'', txid), (''index'', ''1''),
                                       (''amount'', ''50''), (''address'', ''User A'')]),
        (txid, json_object L [])]
   \<and> snd (snd (initState_tx L (mkStub txid []))) =
       makeTransaction txid [makeUTXO txid ''4294967295'' ''50'' ''Coinbase'' ''in'']
                            [makeUTXO txid ''1'' ''50'' ''User A'' ''out'']
   \<and> queryTransaction (snd (initState L (mkStub txid []))) [txid] = Success (Some (json_object L []))
   \<and> json_object ref_lib [] = ''{}''"
  by (simp add: initState_def initState_tx_def Let_def storeUTXO_def storeTransaction_def
      PutState_def GetTxID_def mkStub_def makeUTXO_def json_Marshal_Transaction_def
      json_Marshal_UTXO_def Itoa_MaxUint32 queryTransaction_def GetState_def
      ref_lib_def ref_json_object_def)

subsection \<open>The loop of queryUTXOByAddr\<close>

declare queryUTXOByAddr_loop.simps(3) [simp del]

lemma queryUTXOByAddr_loop_skip:
  "\<not> (strings_Contains key '':'' \<and> checkUTXOOwnerShip (decodeUTXO L val) address) \<Longrightarrow>
   queryUTXOByAddr_loop L address (Inr (key, val) # rest) (buffer, written)
     = queryUTXOByAddr_loop L address rest (buffer, written)"
  by (auto simp: queryUTXOByAddr_loop.simps(3) decodeUTXO_def)

lemma queryUTXOByAddr_loop_write:
  "strings_Contains key '':'' \<Longrightarrow> checkUTXOOwnerShip (decodeUTXO L val) address \<Longrightarrow>
   queryUTXOByAddr_loop L address (Inr (key, val) # rest) (buffer, written)
     = queryUTXOByAddr_loop L address rest (writeMember buffer written key val, True)"
  by (simp add: queryUTXOByAddr_loop.simps(3) decodeUTXO_def)

text \<open>Without a store error the loop writes the entries that pass both checks, in scan order.\<close>

lemma queryUTXOByAddr_loop_filter:
  "queryUTXOByAddr_loop L address (map Inr kvs) bw =
     Inr (foldl (\<lambda>bw kv. (writeMember (fst bw) (snd bw) (fst kv) (snd kv), True)) bw
            (filter (\<lambda>kv. strings_Contains (fst kv) '':''
                          \<and> checkUTXOOwnerShip (decodeUTXO L (snd kv)) address) kvs))"
proof (induction kvs arbitrary: bw)
  case Nil
  show ?case by (cases bw) simp
next
  case (Cons kv kvs)
  obtain key val where kv: "kv = (key, val)" by (cases kv)
  obtain buffer written where bw: "bw = (buffer, written)" by (cases bw)
  show ?case
  proof (cases "strings_Contains key '':'' \<and> checkUTXOOwnerShip (decodeUTXO L val) address")
    case True
    then show ?thesis
      using Cons.IH[of "(writeMember buffer written key val, True)"]
      by (simp add: kv bw queryUTXOByAddr_loop_write)
  next
    case False
    then show ?thesis
      using Cons.IH[of "(buffer, written)"] queryUTXOByAddr_loop_skip[OF False]
      by (auto simp: kv bw)
  qed
qed

lemma queryUTXOByAddr_loop_Inr_no_error:
  "queryUTXOByAddr_loop L address it bw = Inr r \<Longrightarrow> Inl e \<notin> set it"
proof (induction it arbitrary: bw)
  case Nil
  show ?case by simp
next
  case (Cons x it)
  obtain buffer written where bw: "bw = (buffer, written)" by (cases bw)
  show ?case
  proof (cases x)
    case (Inl e')
    with Cons.prems bw show ?thesis by simp
  next
    case (Inr kv)
    obtain key val where kv: "kv = (key, val)" by (cases kv)
    from Cons.prems Inr kv bw
    have "\<exists>bw'. queryUTXOByAddr_loop L address it bw' = Inr r"
      by (cases "strings_Contains key '':'' \<and> checkUTXOOwnerShip (decodeUTXO L val) address")
         (auto simp: queryUTXOByAddr_loop_write queryUTXOByAddr_loop_skip)
    with Cons.IH Inr show ?thesis by auto
  qed
qed

lemma iterator_without_errors:
  assumes "GetStateByRange s = Inr it" and "\<And>e. Inl e \<notin> set it"
  shows "it = map Inr (scanAll s)"
proof -
  from assms(1) have it: "it = map (\<lambda>kv. case Next_err s (fst kv) of Some e \<Rightarrow> Inl e | None \<Rightarrow> Inr kv)
                        (scanAll s)"
    by (simp add: GetStateByRange_def split: option.splits)
  have "\<And>kv. kv \<in> set (scanAll s) \<Longrightarrow> Next_err s (fst kv) = None"
  proof -
    fix kv assume kv: "kv \<in> set (scanAll s)"
    show "Next_err s (fst kv) = None"
    proof (cases "Next_err s (fst kv)")
      case None then show ?thesis .
    next
      case (Some e)
      with kv it have "Inl e \<in> set it" by (force simp: image_iff)
      with assms(2) show ?thesis by blast
    qed
  qed
  with it show ?thesis by simp
qed

lemma queryUTXOByAddr_success:
  assumes "queryUTXOByAddr L s [A] = Success (Some payload)"
  shows "payload = renderMembers
           (filter (\<lambda>kv. strings_Contains (fst kv) '':''
                        \<and> checkUTXOOwnerShip (decodeUTXO L (snd kv)) A) (scanAll s))"
proof -
  obtain it where it: "GetStateByRange s = Inr it"
    using assms by (cases "GetStateByRange s") (simp_all add: queryUTXOByAddr_def)
  obtain r where r: "queryUTXOByAddr_loop L A it (''['', False) = Inr r"
    using assms it
    by (cases "queryUTXOByAddr_loop L A it (''['', False)") (simp_all add: queryUTXOByAddr_def)
  from queryUTXOByAddr_loop_Inr_no_error[OF r] it
  have m: "it = map Inr (scanAll s)" by (rule iterator_without_errors[rotated])
  from r have "r = foldl (\<lambda>bw kv. (writeMember (fst bw) (snd bw) (fst kv) (snd kv), True)) (''['', False)
            (filter (\<lambda>kv. strings_Contains (fst kv) '':''
                          \<and> checkUTXOOwnerShip (decodeUTXO L (snd kv)) A) (scanAll s))"
    by (simp add: m queryUTXOByAddr_loop_filter)
  with assms it r show ?thesis
    by (simp add: queryUTXOByAddr_def renderMembers_def split: prod.splits)
qed

text \<open>
  C7. Whenever \<open>queryUTXOByAddr(A)\<close> succeeds, its payload is the array of exactly
  those scanned entries that have a UTXO key and whose decoded record passes the
  ownership check, in scan order. So every returned entry decodes to a UTXO with
  address \<open>A\<close> and direction \<open>out\<close>: none has another address, none has
  direction \<open>in\<close>.
\<close>

theorem queryUTXOByAddr_returns_only_owned:
  assumes "queryUTXOByAddr L s [A] = Success (Some payload)"
  shows "\<exists>es. payload = renderMembers es
     \<and> es = filter (\<lambda>kv. strings_Contains (fst kv) '':''
                        \<and> checkUTXOOwnerShip (decodeUTXO L (snd kv)) A) (scanAll s)
     \<and> (\<forall>kv \<in> set es. Address (decodeUTXO L (snd kv)) = A
                       \<and> inOrOut (decodeUTXO L (snd kv)) = ''out''
                       \<and> inOrOut (decodeUTXO L (snd kv)) \<noteq> ''in'')"
  using queryUTXOByAddr_success[OF assms] by (auto simp: checkUTXOOwnerShip_def)


theorem queryUTXOByAddr_returns_only_owned_witness:
  "queryUTXOByAddr ref_lib (mkStub ''tx1'' genesis) [''User A''] = Success (Some ''[]'')
   \<and> (\<exists>es. ''[]'' = renderMembers es
         \<and> es = filter (\<lambda>kv. strings_Contains (fst kv) '':''
                        \<and> checkUTXOOwnerShip (decodeUTXO ref_lib (snd kv)) ''User A'')
                  (scanAll (mkStub ''tx1'' genesis))
         \<and> (\<forall>kv \<in> set es. Address (decodeUTXO ref_lib (snd kv)) = ''User A''
                       \<and> inOrOut (decodeUTXO ref_lib (snd kv)) = ''out''
                       \<and> inOrOut (decodeUTXO ref_lib (snd kv)) \<noteq> ''in''))"
proof -
  let ?s = "mkStub ''tx1'' genesis"
  have rng: "GetStateByRange ?s = Inr (map Inr (scanAll ?s))"
    by (rule GetStateByRange_no_errors) (simp_all add: mkStub_simps)
  have q: "queryUTXOByAddr ref_lib ?s [''User A''] = Success (Some ''[]'')"
    by (simp add: queryUTXOByAddr_def rng queryUTXOByAddr_loop_filter decoded_never_spendable)
  from queryUTXOByAddr_returns_only_owned[OF q]
  have "\<exists>es. ''[]'' = renderMembers es
         \<and> es = filter (\<lambda>kv. strings_Contains (fst kv) '':''
                        \<and> checkUTXOOwnerShip (decodeUTXO ref_lib (snd kv)) ''User A'')
                  (scanAll (mkStub ''tx1'' genesis))
         \<and> (\<forall>kv \<in> set es. Address (decodeUTXO ref_lib (snd kv)) = ''User A''
                       \<and> inOrOut (decodeUTXO ref_lib (snd kv)) = ''out''
                       \<and> inOrOut (decodeUTXO ref_lib (snd kv)) \<noteq> ''in'')" .
  with q show ?thesis by (rule conjI)
qed

text \<open>
  As no decoded entry passes the ownership check, a query that meets no store error
  returns the empty array, whatever the ledger and the address.
\<close>

lemma queryUTXOByAddr_always_empty:
  assumes "GetStateByRange_err s = None" and "Next_err s = (\<lambda>k. None)"
  shows "queryUTXOByAddr L s [A] = Success (Some ''[]'')"
proof -
  have rng: "GetStateByRange s = Inr (map Inr (scanAll s))"
    using assms by (simp add: GetStateByRange_no_errors)
  show ?thesis
    by (simp add: queryUTXOByAddr_def rng queryUTXOByAddr_loop_filter decoded_never_spendable)
qed

subsection \<open>The decoder's error result is never read\<close>

lemma decodeUTXO_json_error: "decodeUTXO (L\<lparr>json_error := e\<rparr>) val = decodeUTXO L val"
  by (simp add: decodeUTXO_def json_Unmarshal_UTXO_def)

lemma queryUTXOByAddr_loop_json_error:
  "queryUTXOByAddr_loop (L\<lparr>json_error := e\<rparr>) address it bw = queryUTXOByAddr_loop L address it bw"
proof (induction it arbitrary: bw)
  case Nil
  show ?case by (cases bw) simp
next
  case (Cons x it)
  obtain buffer written where bw: "bw = (buffer, written)" by (cases bw)
  show ?case
  proof (cases x)
    case (Inl e')
    then show ?thesis by (simp add: bw)
  next
    case (Inr kv)
    obtain key val where kv: "kv = (key, val)" by (cases kv)
    show ?thesis
    proof (cases "strings_Contains key '':'' \<and> checkUTXOOwnerShip (decodeUTXO L val) address")
      case True
      then show ?thesis
        using Cons.IH by (simp add: Inr kv bw queryUTXOByAddr_loop_write decodeUTXO_json_error)
    next
      case False
      then have "\<not> (strings_Contains key '':''
                   \<and> checkUTXOOwnerShip (decodeUTXO (L\<lparr>json_error := e\<rparr>) val) address)"
        by (simp add: decodeUTXO_json_error)
      from queryUTXOByAddr_loop_skip[OF this] queryUTXOByAddr_loop_skip[OF False] Cons.IH
      show ?thesis by (simp add: Inr kv bw)
    qed
  qed
qed

lemma transferUTXO_loop_json_error:
  "transferUTXO_loop (L\<lparr>json_error := e\<rparr>) a amt it st = transferUTXO_loop L a amt it st"
proof (induction it arbitrary: st)
  case Nil
  obtain ins ks c where "st = (ins, ks, c)" by (cases st)
  then show ?case by simp
next
  case (Cons x it)
  obtain ins ks c where st: "st = (ins, ks, c)" by (cases st)
  show ?case
  proof (cases "f_less L c amt")
    case False
    then have "\<not> f_less (L\<lparr>json_error := e\<rparr>) c amt" by simp
    from transferUTXO_loop_no_iteration[OF this] transferUTXO_loop_no_iteration[OF False]
    show ?thesis by (simp add: st)
  next
    case True
    then have True': "f_less (L\<lparr>json_error := e\<rparr>) c amt" by simp
    show ?thesis
    proof (cases x)
      case (Inl e')
      with transferUTXO_loop_error[OF True] transferUTXO_loop_error[OF True']
      show ?thesis by (simp add: st)
    next
      case (Inr kv)
      obtain key val where kv: "kv = (key, val)" by (cases kv)
      show ?thesis
      proof (cases "checkUTXOOwnerShip (decodeUTXO L val) a")
        case chk: True
        then have chk': "checkUTXOOwnerShip (decodeUTXO (L\<lparr>json_error := e\<rparr>) val) a"
          by (simp add: decodeUTXO_json_error)
        from transferUTXO_loop_take[OF True chk] transferUTXO_loop_take[OF True' chk'] Cons.IH
        show ?thesis by (simp add: st Inr kv decodeUTXO_json_error)
      next
        case chk: False
        then have chk': "\<not> checkUTXOOwnerShip (decodeUTXO (L\<lparr>json_error := e\<rparr>) val) a"
          by (simp add: decodeUTXO_json_error)
        from transferUTXO_loop_skip[OF True chk] transferUTXO_loop_skip[OF True' chk'] Cons.IH
        show ?thesis by (simp add: st Inr kv)
      qed
    qed
  qed
qed

lemma json_error_fields:
  "ParseFloat (L\<lparr>json_error := e\<rparr>) = ParseFloat L"
  "FormatFloat (L\<lparr>json_error := e\<rparr>) = FormatFloat L"
  "f_zero (L\<lparr>json_error := e\<rparr>) = f_zero L"
  "f_add (L\<lparr>json_error := e\<rparr>) = f_add L"
  "f_sub (L\<lparr>json_error := e\<rparr>) = f_sub L"
  "f_less (L\<lparr>json_error := e\<rparr>) = f_less L"
  "json_object (L\<lparr>json_error := e\<rparr>) = json_object L"
  by simp_all

lemma json_error_stores:
  "makeOutputs (L\<lparr>json_error := e\<rparr>) = makeOutputs L"
  "storeUTXO (L\<lparr>json_error := e\<rparr>) = storeUTXO L"
  "storeTransaction (L\<lparr>json_error := e\<rparr>) = storeTransaction L"
  by (intro ext; simp add: makeOutputs_def storeUTXO_def storeTransaction_def
      json_Marshal_UTXO_def json_Marshal_Transaction_def Let_def)+

lemma queryUTXOByAddr_json_error:
  "queryUTXOByAddr (L\<lparr>json_error := e\<rparr>) s args = queryUTXOByAddr L s args"
  unfolding queryUTXOByAddr_def queryUTXOByAddr_loop_json_error by (rule refl)

lemma transferUTXO_tx_json_error:
  "transferUTXO_tx (L\<lparr>json_error := e\<rparr>) s args = transferUTXO_tx L s args"
  unfolding transferUTXO_tx_def transferUTXO_loop_json_error json_error_fields json_error_stores
  by (rule refl)

text \<open>
  C8, as amended. The error \<open>json.Unmarshal\<close> returns is discarded in both scans: the
  entry is processed as the UTXO the decoder left in a zero-valued struct. Whatever
  errors the decoder reports, \<open>queryUTXOByAddr\<close> and \<open>transferUTXO\<close> give the same
  result; and when the store itself raises no error, \<open>queryUTXOByAddr\<close> succeeds and
  \<open>transferUTXO\<close> either succeeds or fails for the argument count or for
  insufficient funds, never for a decode failure.
\<close>

theorem scans_discard_decode_errors:
  assumes "GetStateByRange_err s = None" and "Next_err s = (\<lambda>k. None)"
  shows "queryUTXOByAddr (L\<lparr>json_error := e\<rparr>) s [A] = queryUTXOByAddr L s [A]
     \<and> transferUTXO (L\<lparr>json_error := e\<rparr>) s args = transferUTXO L s args
     \<and> (\<exists>payload. queryUTXOByAddr L s [A] = Success (Some payload))
     \<and> fst (transferUTXO L s args)
         \<in> {Success None, Error ''No enough amount to spend'',
             Error ''Incorrect number of arguments. Expecting 3''}"
proof -
  have rng: "GetStateByRange s = Inr (map Inr (scanAll s))"
    using assms by (simp add: GetStateByRange_no_errors)
  have q: "\<exists>payload. queryUTXOByAddr L s [A] = Success (Some payload)"
    by (simp add: queryUTXOByAddr_def rng queryUTXOByAddr_loop_filter split: prod.splits)
  have t: "fst (transferUTXO L s args)
         \<in> {Success None, Error ''No enough amount to spend'',
             Error ''Incorrect number of arguments. Expecting 3''}"
  proof (cases "length args = 3")
    case False
    then show ?thesis by (simp add: transferUTXO_fst transferUTXO_tx_wrong_arity)
  next
    case len: True
    have loop: "transferUTXO_loop L (args ! 0) (ParseFloat L (args ! 2)) (map Inr (scanAll s))
        ([], [], f_zero L) = Inr ([], [], f_zero L)"
      by (rule transferUTXO_loop_selects_nothing)
    show ?thesis
    proof (cases "f_less L (f_zero L) (ParseFloat L (args ! 2))")
      case True
      from transferUTXO_tx_insufficient[OF len rng loop True]
      show ?thesis by (simp add: transferUTXO_fst)
    next
      case False
      from transferUTXO_tx_after_selection[OF len rng loop False]
      show ?thesis by (simp add: transferUTXO_fst)
    qed
  qed
  show ?thesis
    by (simp only: queryUTXOByAddr_json_error transferUTXO_def transferUTXO_tx_json_error q
        t[unfolded transferUTXO_def] simp_thms)
qed


lemma garbage_is_not_JSON: "json_error ref_lib ''garbage'' = Some ''invalid JSON''"
  by (simp add: ref_lib_simps ref_json_error_def ref_parse_def)

theorem scans_discard_decode_errors_witness:
  "json_error ref_lib ''garbage'' = Some ''invalid JSON''
   \<and> queryUTXOByAddr (ref_lib\<lparr>json_error := \<lambda>d. None\<rparr>) (mkStub ''tx1'' garbled) [''User A'']
       = queryUTXOByAddr ref_lib (mkStub ''tx1'' garbled) [''User A'']
   \<and> transferUTXO (ref_lib\<lparr>json_error := \<lambda>d. None\<rparr>) (mkStub ''tx1'' garbled)
         [''User A'', ''User B'', ''20'']
       = transferUTXO ref_lib (mkStub ''tx1'' garbled) [''User A'', ''User B'', ''20'']
   \<and> (\<exists>payload. queryUTXOByAddr ref_lib (mkStub ''tx1'' garbled) [''User A'']
                   = Success (Some payload))
   \<and> fst (transferUTXO ref_lib (mkStub ''tx1'' garbled) [''User A'', ''User B'', ''20''])
         \<in> {Success None, Error ''No enough amount to spend'',
             Error ''Incorrect number of arguments. Expecting 3''}"
proof -
  have rng: "GetStateByRange_err (mkStub ''tx1'' garbled) = None"
    and nxt: "Next_err (mkStub ''tx1'' garbled) = (\<lambda>k. None)"
    by (simp_all add: mkStub_def)
  from garbage_is_not_JSON
    scans_discard_decode_errors[OF rng nxt, where L = ref_lib and e = "\<lambda>d. None"
      and A = "''User A''" and args = "[''User A'', ''User B'', ''20'']"]
  show ?thesis by (rule conjI)
qed

text \<open>
  C8 as stated fails. The ledger \<open>garbled\<close> holds, under the UTXO key \<open>tx9:1\<close>, a
  value that is not JSON. \<open>queryUTXOByAddr\<close> succeeds on it with the empty array, and
  the selection scan of \<open>transferUTXO\<close> passes over it: the transfer ends with the
  insufficient-funds error, not with a decode error.
\<close>

theorem decode_failure_counterexample:
  "strings_Contains ''tx9:1'' '':''
   \<and> (''tx9:1'', ''garbage'') \<in> set (scanAll (mkStub ''tx1'' garbled))
   \<and> json_error ref_lib ''garbage'' = Some ''invalid JSON''
   \<and> queryUTXOByAddr ref_lib (mkStub ''tx1'' garbled) [''User A''] = Success (Some ''[]'')
   \<and> fst (transferUTXO ref_lib (mkStub ''tx1'' garbled) [''User A'', ''User B'', ''20''])
       = Error ''No enough amount to spend''"
proof -
  let ?s = "mkStub ''tx1'' garbled"
  let ?args = "[''User A'', ''User B'', ''20'']"
  have rng: "GetStateByRange_err ?s = None" and nxt: "Next_err ?s = (\<lambda>k. None)"
    by (simp_all add: mkStub_def)
  have c: "strings_Contains ''tx9:1'' '':''" by simp
  have m: "(''tx9:1'', ''garbage'') \<in> set (scanAll ?s)"
    by (simp add: scanAll_def mkStub_simps garbled_def)
  have q: "queryUTXOByAddr ref_lib ?s [''User A''] = Success (Some ''[]'')"
    using rng nxt by (rule queryUTXOByAddr_always_empty)
  have len: "length ?args = 3" by simp
  have it: "GetStateByRange ?s = Inr (map Inr (scanAll ?s))"
    using rng nxt by (simp add: GetStateByRange_no_errors)
  have loop: "transferUTXO_loop ref_lib (?args ! 0) (ParseFloat ref_lib (?args ! 2))
      (map Inr (scanAll ?s)) ([], [], f_zero ref_lib) = Inr ([], [], f_zero ref_lib)"
    by (rule transferUTXO_loop_selects_nothing)
  have less: "f_less ref_lib (f_zero ref_lib) (ParseFloat ref_lib (?args ! 2))"
    by (simp add: ref_lib_simps ref_ParseFloat_examples)
  have t: "fst (transferUTXO ref_lib ?s ?args) = Error ''No enough amount to spend''"
    by (simp add: transferUTXO_fst transferUTXO_tx_insufficient[OF len it loop less])
  from c m garbage_is_not_JSON q t show ?thesis by (intro conjI)
qed

subsection \<open>The scan of the genesis ledger\<close>

lemma scanAll_genesis:
  "scanAll (mkStub ''tx1'' genesis) =
     [(''tx0'', ''{}''),
      (''tx0:1'', json_Marshal_UTXO ref_lib (makeUTXO ''tx0'' ''1'' ''50'' ''User A'' ''out''))]"
  by (simp add: scanAll_def mkStub_simps genesis_eq ref_json_object_def
      less_eq_char_def less_char_def)

subsection \<open>Sums of inputs and outputs\<close>

lemma Amount_makeUTXO: "Amount (makeUTXO txid i amt addr io) = amt"
  by (simp add: makeUTXO_def)

text \<open>
  C4, as amended. In every successful \<open>transferUTXO\<close> the amounts of the inputs sum to
  the selected total, and the outputs are the recipient's output, carrying the amount
  argument as given, followed, exactly when the total is greater than the amount, by
  the change output, carrying \<open>total - amount\<close> formatted to two decimals. The sum of
  the outputs equals the sum of the inputs whenever nothing is lost on the way: the
  formatted change parses back to \<open>total - amount\<close>, \<open>amount + (total - amount)\<close> is
  \<open>total\<close>, \<open>0.0 + amount\<close> is \<open>amount\<close>, and amount and total are the same value
  when no change is due.
\<close>

theorem transferUTXO_conservation_when_exact:
  assumes run: "transferUTXO_tx L s args = (Success None, s', Some t)"
    and zero: "f_add L (f_zero L) (ParseFloat L (args ! 2)) = ParseFloat L (args ! 2)"
    and lossless:
      "if f_less L (ParseFloat L (args ! 2)) (sumAmounts L (inputs t))
       then ParseFloat L (FormatFloat L (f_sub L (sumAmounts L (inputs t)) (ParseFloat L (args ! 2))))
              = f_sub L (sumAmounts L (inputs t)) (ParseFloat L (args ! 2))
            \<and> f_add L (ParseFloat L (args ! 2))
                  (f_sub L (sumAmounts L (inputs t)) (ParseFloat L (args ! 2)))
              = sumAmounts L (inputs t)
       else ParseFloat L (args ! 2) = sumAmounts L (inputs t)"
  shows "outputs t =
       (if f_less L (ParseFloat L (args ! 2)) (sumAmounts L (inputs t))
        then [makeUTXO (TxID s) ''1'' (args ! 2) (args ! 1) ''out'',
              makeUTXO (TxID s) ''2''
                (FormatFloat L (f_sub L (sumAmounts L (inputs t)) (ParseFloat L (args ! 2))))
                (args ! 0) ''out'']
        else [makeUTXO (TxID s) ''1'' (args ! 2) (args ! 1) ''out''])
     \<and> sumAmounts L (outputs t) = sumAmounts L (inputs t)"
proof -
  from run obtain it ks c where c: "c = sumAmounts L (inputs t)"
    and outs: "outputs t = snd (snd (makeOutputs L (TxID s) args (ParseFloat L (args ! 2)) c))"
    by (rule transferUTXO_tx_successE)
  have o: "outputs t =
       (if f_less L (ParseFloat L (args ! 2)) (sumAmounts L (inputs t))
        then [makeUTXO (TxID s) ''1'' (args ! 2) (args ! 1) ''out'',
              makeUTXO (TxID s) ''2''
                (FormatFloat L (f_sub L (sumAmounts L (inputs t)) (ParseFloat L (args ! 2))))
                (args ! 0) ''out'']
        else [makeUTXO (TxID s) ''1'' (args ! 2) (args ! 1) ''out''])"
    by (simp add: outs makeOutputs_outputs c)
  have "sumAmounts L (outputs t) = sumAmounts L (inputs t)"
  proof (cases "f_less L (ParseFloat L (args ! 2)) (sumAmounts L (inputs t))")
    case True
    let ?d = "f_sub L (sumAmounts L (inputs t)) (ParseFloat L (args ! 2))"
    from lossless True have rt: "ParseFloat L (FormatFloat L ?d) = ?d"
      and addback: "f_add L (ParseFloat L (args ! 2)) ?d = sumAmounts L (inputs t)"
      by simp_all
    from o True have "outputs t = [makeUTXO (TxID s) ''1'' (args ! 2) (args ! 1) ''out'',
              makeUTXO (TxID s) ''2'' (FormatFloat L ?d) (args ! 0) ''out'']"
      by simp
    then have "sumAmounts L (outputs t) =
        f_add L (f_add L (f_zero L) (ParseFloat L (args ! 2))) (ParseFloat L (FormatFloat L ?d))"
      unfolding sumAmounts_def[of L "outputs t"] by (simp add: Amount_makeUTXO)
    also have "\<dots> = f_add L (ParseFloat L (args ! 2)) ?d"
      by (simp only: zero rt)
    also have "\<dots> = sumAmounts L (inputs t)" by (rule addback)
    finally show ?thesis .
  next
    case False
    from lossless False have eq: "ParseFloat L (args ! 2) = sumAmounts L (inputs t)" by simp
    from o False have "outputs t = [makeUTXO (TxID s) ''1'' (args ! 2) (args ! 1) ''out'']"
      by simp
    then have "sumAmounts L (outputs t) = f_add L (f_zero L) (ParseFloat L (args ! 2))"
      unfolding sumAmounts_def[of L "outputs t"] by (simp add: Amount_makeUTXO)
    also have "\<dots> = ParseFloat L (args ! 2)" by (rule zero)
    also have "\<dots> = sumAmounts L (inputs t)" by (rule eq)
    finally show ?thesis .
  qed
  with o show ?thesis by (rule conjI)
qed

theorem transferUTXO_conservation_when_exact_witness:
  "fst (transferUTXO_tx ref_lib (mkStub ''tx1'' genesis) [''User A'', ''User B'', ''-5''])
     = Success None
   \<and> snd (snd (transferUTXO_tx ref_lib (mkStub ''tx1'' genesis) [''User A'', ''User B'', ''-5'']))
     = Some (makeTransaction ''tx1'' []
               [makeUTXO ''tx1'' ''1'' ''-5'' ''User B'' ''out'',
                makeUTXO ''tx1'' ''2'' ''5.00'' ''User A'' ''out''])
   \<and> ref_ParseFloat (ref_FormatFloat (0 - ref_ParseFloat ''-5'')) = 0 - ref_ParseFloat ''-5''
   \<and> sumAmounts ref_lib [makeUTXO ''tx1'' ''1'' ''-5'' ''User B'' ''out'',
                          makeUTXO ''tx1'' ''2'' ''5.00'' ''User A'' ''out'']
     = sumAmounts ref_lib []"
proof -
  let ?args = "[''User A'', ''User B'', ''-5'']"
  let ?t = "makeTransaction ''tx1'' []
               [makeUTXO ''tx1'' ''1'' ''-5'' ''User B'' ''out'',
                makeUTXO ''tx1'' ''2'' ''5.00'' ''User A'' ''out'']"
  have t: "\<not> 0 < ref_ParseFloat ''-5''" by (simp add: ref_ParseFloat_examples)
  note run0 = transfer_genesis_nothing_selected[OF t, of "''User A''" "''User B''"]
  have outs: "snd (snd (makeOutputs ref_lib ''tx1'' ?args (ref_ParseFloat ''-5'') 0))
      = [makeUTXO ''tx1'' ''1'' ''-5'' ''User B'' ''out'',
         makeUTXO ''tx1'' ''2'' ''5.00'' ''User A'' ''out'']"
    by (simp add: makeOutputs_outputs ref_lib_simps ref_ParseFloat_examples
        ref_FormatFloat_examples)
  from run0 have run: "transferUTXO_tx ref_lib (mkStub ''tx1'' genesis) ?args =
      (Success None, fst (snd (transferUTXO_tx ref_lib (mkStub ''tx1'' genesis) ?args)), Some ?t)"
    by (simp add: outs)
  have total: "sumAmounts ref_lib (inputs ?t) = 0"
    by (simp add: inputs_makeTransaction sumAmounts_def ref_lib_simps)
  have zero: "f_add ref_lib (f_zero ref_lib) (ParseFloat ref_lib (?args ! 2))
      = ParseFloat ref_lib (?args ! 2)"
    by (simp add: ref_lib_simps)
  have rt: "ref_ParseFloat (ref_FormatFloat (0 - ref_ParseFloat ''-5'')) = 0 - ref_ParseFloat ''-5''"
    by (simp add: ref_ParseFloat_examples ref_FormatFloat_examples)
  have lossless:
      "if f_less ref_lib (ParseFloat ref_lib (?args ! 2)) (sumAmounts ref_lib (inputs ?t))
       then ParseFloat ref_lib (FormatFloat ref_lib
                (f_sub ref_lib (sumAmounts ref_lib (inputs ?t)) (ParseFloat ref_lib (?args ! 2))))
              = f_sub ref_lib (sumAmounts ref_lib (inputs ?t)) (ParseFloat ref_lib (?args ! 2))
            \<and> f_add ref_lib (ParseFloat ref_lib (?args ! 2))
                  (f_sub ref_lib (sumAmounts ref_lib (inputs ?t)) (ParseFloat ref_lib (?args ! 2)))
              = sumAmounts ref_lib (inputs ?t)
       else ParseFloat ref_lib (?args ! 2) = sumAmounts ref_lib (inputs ?t)"
    using rt by (simp add: total ref_lib_simps ref_ParseFloat_examples)
  from transferUTXO_conservation_when_exact[OF run zero lossless]
  have "sumAmounts ref_lib (outputs ?t) = sumAmounts ref_lib (inputs ?t)" by (elim conjE)
  then have s: "sumAmounts ref_lib [makeUTXO ''tx1'' ''1'' ''-5'' ''User B'' ''out'',
                          makeUTXO ''tx1'' ''2'' ''5.00'' ''User A'' ''out'']
     = sumAmounts ref_lib []"
    by (simp add: inputs_makeTransaction outputs_makeTransaction)
  from run have r1: "fst (transferUTXO_tx ref_lib (mkStub ''tx1'' genesis) ?args) = Success None"
    and r2: "snd (snd (transferUTXO_tx ref_lib (mkStub ''tx1'' genesis) ?args)) = Some ?t"
    by (simp_all add: run0 outs)
  from r1 r2 rt s show ?thesis by (intro conjI)
qed

text \<open>
  C4 as stated fails. A transfer of \<open>-0.001\<close> on the genesis ledger succeeds; its
  transaction has no input and two outputs, the recipient's with amount \<open>-0.001\<close>
  and a change output with amount \<open>0.00\<close>, so the outputs sum to \<open>-0.001\<close> and the
  inputs to \<open>0\<close>.
\<close>

theorem transferUTXO_conservation_counterexample:
  "fst (transferUTXO_tx ref_lib (mkStub ''tx1'' genesis) [''User A'', ''User B'', ''-0.001''])
     = Success None
   \<and> snd (snd (transferUTXO_tx ref_lib (mkStub ''tx1'' genesis)
                 [''User A'', ''User B'', ''-0.001'']))
     = Some (makeTransaction ''tx1'' []
               [makeUTXO ''tx1'' ''1'' ''-0.001'' ''User B'' ''out'',
                makeUTXO ''tx1'' ''2'' ''0.00'' ''User A'' ''out''])
   \<and> sumAmounts ref_lib [makeUTXO ''tx1'' ''1'' ''-0.001'' ''User B'' ''out'',
                          makeUTXO ''tx1'' ''2'' ''0.00'' ''User A'' ''out''] = - (1 / 1000)
   \<and> sumAmounts ref_lib [] = 0"
proof -
  have t: "\<not> 0 < ref_ParseFloat ''-0.001''" by (simp add: ref_ParseFloat_examples)
  note run0 = transfer_genesis_nothing_selected[OF t, of "''User A''" "''User B''"]
  have outs: "snd (snd (makeOutputs ref_lib ''tx1'' [''User A'', ''User B'', ''-0.001'']
                          (ref_ParseFloat ''-0.001'') 0))
      = [makeUTXO ''tx1'' ''1'' ''-0.001'' ''User B'' ''out'',
         makeUTXO ''tx1'' ''2'' ''0.00'' ''User A'' ''out'']"
    by (simp add: makeOutputs_outputs ref_lib_simps ref_ParseFloat_examples
        ref_FormatFloat_examples)
  have s1: "sumAmounts ref_lib [makeUTXO ''tx1'' ''1'' ''-0.001'' ''User B'' ''out'',
                          makeUTXO ''tx1'' ''2'' ''0.00'' ''User A'' ''out''] = - (1 / 1000)"
    by (simp add: sumAmounts_def Amount_makeUTXO ref_lib_simps ref_ParseFloat_examples)
  have s2: "sumAmounts ref_lib [] = 0" by (simp add: sumAmounts_def ref_lib_simps)
  from run0 have r1: "fst (transferUTXO_tx ref_lib (mkStub ''tx1'' genesis)
                         [''User A'', ''User B'', ''-0.001'']) = Success None"
    and r2: "snd (snd (transferUTXO_tx ref_lib (mkStub ''tx1'' genesis)
                 [''User A'', ''User B'', ''-0.001'']))
     = Some (makeTransaction ''tx1'' []
               [makeUTXO ''tx1'' ''1'' ''-0.001'' ''User B'' ''out'',
                makeUTXO ''tx1'' ''2'' ''0.00'' ''User A'' ''out''])"
    by (simp_all add: outs)
  from r1 r2 s1 s2 show ?thesis by (intro conjI)
qed

subsection \<open>What the unexported direction field does to the ledger\<close>

text \<open>
  \<open>inOrOut\<close> is unexported, so a stored UTXO record carries no direction and a decoded
  one has the empty direction: \<open>checkUTXOOwnerShip\<close> fails on every scanned entry.
  Hence every transfer of an amount greater than zero ends with "No enough amount to
  spend", whatever the ledger holds for the sender, and leaves the stub as it was.
\<close>

theorem transferUTXO_positive_amount_fails:
  assumes "length args = 3" and "GetStateByRange_err s = None" and "Next_err s = (\<lambda>k. None)"
    and "f_less L (f_zero L) (ParseFloat L (args ! 2))"
  shows "transferUTXO L s args = (Error ''No enough amount to spend'', s)"
proof -
  have rng: "GetStateByRange s = Inr (map Inr (scanAll s))"
    using assms(2,3) by (simp add: GetStateByRange_no_errors)
  have loop: "transferUTXO_loop L (args ! 0) (ParseFloat L (args ! 2)) (map Inr (scanAll s))
      ([], [], f_zero L) = Inr ([], [], f_zero L)"
    by (rule transferUTXO_loop_selects_nothing)
  from transferUTXO_tx_insufficient[OF assms(1) rng loop assms(4)]
  show ?thesis by (simp add: transferUTXO_def)
qed

theorem transferUTXO_positive_amount_fails_witness:
  "map_of genesis ''tx0:1''
     = Some (json_Marshal_UTXO ref_lib (makeUTXO ''tx0'' ''1'' ''50'' ''User A'' ''out''))
   \<and> (0 :: rat) < ref_ParseFloat ''20''
   \<and> fst (transferUTXO ref_lib (mkStub ''tx1'' genesis) [''User A'', ''User B'', ''20''])
       = Error ''No enough amount to spend''
   \<and> State (snd (transferUTXO ref_lib (mkStub ''tx1'' genesis) [''User A'', ''User B'', ''20'']))
       = genesis"
proof -
  let ?s = "mkStub ''tx1'' genesis"
  let ?args = "[''User A'', ''User B'', ''20'']"
  have len: "length ?args = 3" by simp
  have rng: "GetStateByRange_err ?s = None" and nxt: "Next_err ?s = (\<lambda>k. None)"
    by (simp_all add: mkStub_def)
  have g: "map_of genesis ''tx0:1''
     = Some (json_Marshal_UTXO ref_lib (makeUTXO ''tx0'' ''1'' ''50'' ''User A'' ''out''))"
    by (simp add: genesis_eq)
  have p: "(0 :: rat) < ref_ParseFloat ''20''" by (simp add: ref_ParseFloat_examples)
  then have less: "f_less ref_lib (f_zero ref_lib) (ParseFloat ref_lib (?args ! 2))"
    by (simp add: ref_lib_simps)
  from transferUTXO_positive_amount_fails[OF len rng nxt less]
  have "fst (transferUTXO ref_lib ?s ?args) = Error ''No enough amount to spend''"
    and "State (snd (transferUTXO ref_lib ?s ?args)) = genesis"
    by (simp_all add: mkStub_simps)
  with g p show ?thesis by (intro conjI)
qed

text \<open>
  For the same reason \<open>queryUTXOByAddr\<close> returns the empty array for every address on
  every ledger, when the store raises no error.
\<close>

theorem queryUTXOByAddr_returns_empty_array:
  assumes "GetStateByRange_err s = None" and "Next_err s = (\<lambda>k. None)"
  shows "queryUTXOByAddr L s [A] = Success (Some ''[]'')"
  using assms by (rule queryUTXOByAddr_always_empty)

theorem queryUTXOByAddr_returns_empty_array_witness:
  "map_of genesis ''tx0:1''
     = Some (json_Marshal_UTXO ref_lib (makeUTXO ''tx0'' ''1'' ''50'' ''User A'' ''out''))
   \<and> queryUTXOByAddr ref_lib (mkStub ''tx1'' genesis) [''User A''] = Success (Some ''[]'')"
proof -
  have rng: "GetStateByRange_err (mkStub ''tx1'' genesis) = None"
    and nxt: "Next_err (mkStub ''tx1'' genesis) = (\<lambda>k. None)"
    by (simp_all add: mkStub_def)
  have g: "map_of genesis ''tx0:1''
     = Some (json_Marshal_UTXO ref_lib (makeUTXO ''tx0'' ''1'' ''50'' ''User A'' ''out''))"
    by (simp add: genesis_eq)
  from g queryUTXOByAddr_returns_empty_array[OF rng nxt, of ref_lib "''User A''"]
  show ?thesis by (rule conjI)
qed

subsection \<open>Error results of the store calls\<close>

lemma fst_PutState: "fst (PutState s k v) = PutState_err s k v"
  by (simp add: PutState_def split: option.splits)

lemma fst_DelState: "fst (DelState s k) = DelState_err s k"
  by (simp add: DelState_def split: option.splits)

lemma errs_DelState:
  "DelState_err (snd (DelState s k)) = DelState_err s"
  "PutState_err (snd (DelState s k)) = PutState_err s"
  by (simp_all add: DelState_def split: option.splits)

lemma errs_deleteSpent:
  "DelState_err (deleteSpent s ks) = DelState_err s"
  "PutState_err (deleteSpent s ks) = PutState_err s"
  by (induction ks arbitrary: s) (simp_all add: errs_DelState)

lemma State_DelState_failed:
  "DelState_err s k = Some e \<Longrightarrow> State (snd (DelState s k)) = State s"
  by (simp add: DelState_def)

lemma runCalls_append:
  "runCalls s (cs @ ds) =
     (fst (runCalls s cs) @ fst (runCalls (snd (runCalls s cs)) ds),
      snd (runCalls (snd (runCalls s cs)) ds))"
proof (induction cs arbitrary: s)
  case Nil
  show ?case by simp
next
  case (Cons c cs)
  show ?case by (cases c) (simp_all add: Cons.IH)
qed

lemma runCalls_deletions:
  "runCalls s (map DelStateCall ks) = (map (DelState_err s) ks, deleteSpent s ks)"
  by (induction ks arbitrary: s) (simp_all add: fst_DelState errs_DelState)

lemma runCalls_three_puts:
  "runCalls s [PutStateCall k1 v1, PutStateCall k2 v2, PutStateCall k3 v3] =
     ([PutState_err s k1 v1, PutState_err s k2 v2, PutState_err s k3 v3],
      snd (PutState (snd (PutState (snd (PutState s k1 v1)) k2 v2)) k3 v3))"
  by (simp add: fst_PutState PutState_err_PutState)

lemma write_errors_fields:
  "TxID (s\<lparr>PutState_err := pe, DelState_err := de\<rparr>) = TxID s"
  "Calls (s\<lparr>PutState_err := pe, DelState_err := de\<rparr>) = Calls s"
  "State (s\<lparr>PutState_err := pe, DelState_err := de\<rparr>) = State s"
  "PutState_err (s\<lparr>PutState_err := pe, DelState_err := de\<rparr>) = pe"
  "DelState_err (s\<lparr>PutState_err := pe, DelState_err := de\<rparr>) = de"
  by simp_all

lemma Calls_runCalls: "Calls (snd (runCalls s cs)) = Calls s @ cs"
proof (induction cs arbitrary: s)
  case Nil
  show ?case by simp
next
  case (Cons c cs)
  show ?case by (cases c) (simp_all add: Cons.IH Calls_PutState Calls_DelState)
qed

lemma State_runCalls_all_failing:
  assumes "\<And>k v. PutState_err s k v \<noteq> None" and "\<And>k. DelState_err s k \<noteq> None"
  shows "State (snd (runCalls s cs)) = State s"
  using assms
proof (induction cs arbitrary: s)
  case Nil
  show ?case by simp
next
  case (Cons c cs)
  show ?case
  proof (cases c)
    case (PutStateCall k v)
    from Cons.prems(1)[of k v] obtain e where e: "PutState_err s k v = Some e" by auto
    have "State (snd (runCalls (snd (PutState s k v)) cs)) = State (snd (PutState s k v))"
      by (rule Cons.IH) (simp_all add: PutState_err_PutState Cons.prems PutState_def e)
    then show ?thesis by (simp add: PutStateCall State_PutState_failed[OF e])
  next
    case (DelStateCall k)
    from Cons.prems(2)[of k] obtain e where e: "DelState_err s k = Some e" by auto
    have "State (snd (runCalls (snd (DelState s k)) cs)) = State (snd (DelState s k))"
      by (rule Cons.IH) (simp_all add: errs_DelState Cons.prems)
    then show ?thesis by (simp add: DelStateCall State_DelState_failed[OF e])
  qed
qed

text \<open>
  C10. Lines 402-405 call \<open>DelState\<close> for each key they are given and drop what it
  returns: for every list of keys, the stub after the loop is the stub after those
  calls, whatever errors they return. Once the selection has succeeded, the body issues
  these deletions and then three \<open>PutState\<close> calls (for \<open>utxo1\<close>, for \<open>utxo2\<close> and
  for the transaction record); each call returns the error the store gives it, and for
  every choice of the calls that fail the response is \<open>shim.Success(nil)\<close>.
\<close>

theorem transferUTXO_ignores_store_errors:
  assumes "length args = 3"
    and "GetStateByRange s = Inr it"
    and "transferUTXO_loop L (args ! 0) (ParseFloat L (args ! 2)) it ([], [], f_zero L)
           = Inr (ins, ks, c)"
    and "\<not> f_less L c (ParseFloat L (args ! 2))"
  shows "fst (transferUTXO L (s\<lparr>PutState_err := pe, DelState_err := de\<rparr>) args) = Success None
     \<and> snd (transferUTXO L (s\<lparr>PutState_err := pe, DelState_err := de\<rparr>) args) =
         snd (runCalls (s\<lparr>PutState_err := pe, DelState_err := de\<rparr>)
           (map DelStateCall ks @
            [PutStateCall (TxID s @ '':1'')
               (json_Marshal_UTXO L (makeUTXO (TxID s) ''1'' (args ! 2) (args ! 1) ''out'')),
             PutStateCall
               (TxID s @ '':'' @
                  Index (fst (snd (makeOutputs L (TxID s) args (ParseFloat L (args ! 2)) c))))
               (json_Marshal_UTXO L
                  (fst (snd (makeOutputs L (TxID s) args (ParseFloat L (args ! 2)) c)))),
             PutStateCall (TxID s) (json_object L [])]))
     \<and> fst (runCalls (s\<lparr>PutState_err := pe, DelState_err := de\<rparr>)
           (map DelStateCall ks @
            [PutStateCall (TxID s @ '':1'')
               (json_Marshal_UTXO L (makeUTXO (TxID s) ''1'' (args ! 2) (args ! 1) ''out'')),
             PutStateCall
               (TxID s @ '':'' @
                  Index (fst (snd (makeOutputs L (TxID s) args (ParseFloat L (args ! 2)) c))))
               (json_Marshal_UTXO L
                  (fst (snd (makeOutputs L (TxID s) args (ParseFloat L (args ! 2)) c)))),
             PutStateCall (TxID s) (json_object L [])]))
         = map de ks @
            [pe (TxID s @ '':1'')
               (json_Marshal_UTXO L (makeUTXO (TxID s) ''1'' (args ! 2) (args ! 1) ''out'')),
             pe (TxID s @ '':'' @
                  Index (fst (snd (makeOutputs L (TxID s) args (ParseFloat L (args ! 2)) c))))
               (json_Marshal_UTXO L
                  (fst (snd (makeOutputs L (TxID s) args (ParseFloat L (args ! 2)) c)))),
             pe (TxID s) (json_object L [])]
     \<and> deleteSpent (s\<lparr>PutState_err := pe, DelState_err := de\<rparr>) keys
         = snd (runCalls (s\<lparr>PutState_err := pe, DelState_err := de\<rparr>) (map DelStateCall keys))
     \<and> fst (runCalls (s\<lparr>PutState_err := pe, DelState_err := de\<rparr>) (map DelStateCall keys))
         = map de keys"
proof -
  let ?s = "s\<lparr>PutState_err := pe, DelState_err := de\<rparr>"
  let ?u2 = "fst (snd (makeOutputs L (TxID s) args (ParseFloat L (args ! 2)) c))"
  have rng: "GetStateByRange ?s = Inr it"
    using assms(2) by (simp add: GetStateByRange_write_errors)
  note run = transferUTXO_tx_after_selection[OF assms(1) rng assms(3) assms(4)]
  have r: "fst (transferUTXO L ?s args) = Success None"
    by (simp add: transferUTXO_fst run)
  have st: "snd (transferUTXO L ?s args) =
      snd (PutState (snd (PutState (snd (PutState (deleteSpent ?s ks) (TxID s @ '':1'')
               (json_Marshal_UTXO L (makeUTXO (TxID s) ''1'' (args ! 2) (args ! 1) ''out''))))
             (TxID s @ '':'' @ Index ?u2) (json_Marshal_UTXO L ?u2)))
           (TxID s) (json_object L []))"
    by (simp add: transferUTXO_snd run storeUTXO_def storeTransaction_def makeOutputs_utxo1
        Index_makeUTXO json_Marshal_Transaction_def)
  have rc: "runCalls ?s
           (map DelStateCall ks @
            [PutStateCall (TxID s @ '':1'')
               (json_Marshal_UTXO L (makeUTXO (TxID s) ''1'' (args ! 2) (args ! 1) ''out'')),
             PutStateCall (TxID s @ '':'' @ Index ?u2) (json_Marshal_UTXO L ?u2),
             PutStateCall (TxID s) (json_object L [])])
      = (map de ks @
            [pe (TxID s @ '':1'')
               (json_Marshal_UTXO L (makeUTXO (TxID s) ''1'' (args ! 2) (args ! 1) ''out'')),
             pe (TxID s @ '':'' @ Index ?u2) (json_Marshal_UTXO L ?u2),
             pe (TxID s) (json_object L [])],
         snd (PutState (snd (PutState (snd (PutState (deleteSpent ?s ks) (TxID s @ '':1'')
               (json_Marshal_UTXO L (makeUTXO (TxID s) ''1'' (args ! 2) (args ! 1) ''out''))))
             (TxID s @ '':'' @ Index ?u2) (json_Marshal_UTXO L ?u2)))
           (TxID s) (json_object L [])))"
    unfolding runCalls_append runCalls_deletions runCalls_three_puts
    by (simp add: errs_deleteSpent)
  have d1: "deleteSpent ?s keys = snd (runCalls ?s (map DelStateCall keys))"
    and d2: "fst (runCalls ?s (map DelStateCall keys)) = map de keys"
    by (simp_all add: runCalls_deletions)
  from r st rc d1 d2 show ?thesis by simp
qed


theorem transferUTXO_ignores_store_errors_witness:
  "fst (transferUTXO ref_lib
          ((mkStub ''tx1'' genesis)\<lparr>PutState_err := \<lambda>k v. Some ''put failed'',
                                    DelState_err := \<lambda>k. Some ''delete failed''\<rparr>)
          [''User A'', ''User B'', ''0'']) = Success None
   \<and> Calls (snd (transferUTXO ref_lib
          ((mkStub ''tx1'' genesis)\<lparr>PutState_err := \<lambda>k v. Some ''put failed'',
                                    DelState_err := \<lambda>k. Some ''delete failed''\<rparr>)
          [''User A'', ''User B'', ''0'']))
       = [PutStateCall ''tx1:1''
            (json_Marshal_UTXO ref_lib (makeUTXO ''tx1'' ''1'' ''0'' ''User B'' ''out'')),
          PutStateCall ''tx1:'' (json_Marshal_UTXO ref_lib zero_UTXO),
          PutStateCall ''tx1'' (json_object ref_lib [])]
   \<and> fst (runCalls
          ((mkStub ''tx1'' genesis)\<lparr>PutState_err := \<lambda>k v. Some ''put failed'',
                                    DelState_err := \<lambda>k. Some ''delete failed''\<rparr>)
          [PutStateCall ''tx1:1''
             (json_Marshal_UTXO ref_lib (makeUTXO ''tx1'' ''1'' ''0'' ''User B'' ''out'')),
           PutStateCall ''tx1:'' (json_Marshal_UTXO ref_lib zero_UTXO),
           PutStateCall ''tx1'' (json_object ref_lib [])])
       = [Some ''put failed'', Some ''put failed'', Some ''put failed'']
   \<and> State (snd (transferUTXO ref_lib
          ((mkStub ''tx1'' genesis)\<lparr>PutState_err := \<lambda>k v. Some ''put failed'',
                                    DelState_err := \<lambda>k. Some ''delete failed''\<rparr>)
          [''User A'', ''User B'', ''0''])) = genesis
   \<and> fst (runCalls
          ((mkStub ''tx1'' genesis)\<lparr>PutState_err := \<lambda>k v. Some ''put failed'',
                                    DelState_err := \<lambda>k. Some ''delete failed''\<rparr>)
          (map DelStateCall [''tx0:1''])) = [Some ''delete failed'']
   \<and> State (deleteSpent
          ((mkStub ''tx1'' genesis)\<lparr>PutState_err := \<lambda>k v. Some ''put failed'',
                                    DelState_err := \<lambda>k. Some ''delete failed''\<rparr>)
          [''tx0:1'']) = genesis"
proof -
  let ?s = "mkStub ''tx1'' genesis"
  let ?f = "?s\<lparr>PutState_err := \<lambda>k v. Some ''put failed'',
                DelState_err := \<lambda>k. Some ''delete failed''\<rparr>"
  let ?args = "[''User A'', ''User B'', ''0'']"
  let ?cs = "[PutStateCall ''tx1:1''
             (json_Marshal_UTXO ref_lib (makeUTXO ''tx1'' ''1'' ''0'' ''User B'' ''out'')),
           PutStateCall ''tx1:'' (json_Marshal_UTXO ref_lib zero_UTXO),
           PutStateCall ''tx1'' (json_object ref_lib [])]"
  have len: "length ?args = 3" by simp
  have rng: "GetStateByRange ?s = Inr (map Inr (scanAll ?s))"
    by (rule GetStateByRange_no_errors) (simp_all add: mkStub_simps)
  have loop: "transferUTXO_loop ref_lib (?args ! 0) (ParseFloat ref_lib (?args ! 2))
                (map Inr (scanAll ?s)) ([], [], f_zero ref_lib) = Inr ([], [], f_zero ref_lib)"
    by (rule transferUTXO_loop_selects_nothing)
  have amt: "\<not> f_less ref_lib (f_zero ref_lib) (ParseFloat ref_lib (?args ! 2))"
    by (simp add: ref_lib_simps ref_ParseFloat_examples)
  have u2: "fst (snd (makeOutputs ref_lib ''tx1'' ?args (ParseFloat ref_lib (?args ! 2))
                        (f_zero ref_lib))) = zero_UTXO"
    by (simp add: makeOutputs_utxo2 ref_lib_simps ref_ParseFloat_examples)
  have i0: "Index zero_UTXO = []" by (simp add: zero_UTXO_def)
  note th = transferUTXO_ignores_store_errors[OF len rng loop amt,
      where pe = "\<lambda>k v. Some ''put failed''" and de = "\<lambda>k. Some ''delete failed''"
      and keys = "[''tx0:1'']", unfolded mkStub_simps u2 i0]
  from th have r: "fst (transferUTXO ref_lib ?f ?args) = Success None" by (elim conjE)
  from th have st: "snd (transferUTXO ref_lib ?f ?args) = snd (runCalls ?f ?cs)"
    by (elim conjE) simp
  from th have es: "fst (runCalls ?f ?cs)
      = [Some ''put failed'', Some ''put failed'', Some ''put failed'']"
    by (elim conjE) simp
  from th have d1: "deleteSpent ?f [''tx0:1''] = snd (runCalls ?f (map DelStateCall [''tx0:1'']))"
    and d2: "fst (runCalls ?f (map DelStateCall [''tx0:1''])) = [Some ''delete failed'']"
    by (elim conjE, simp)+
  have cl: "Calls (snd (transferUTXO ref_lib ?f ?args)) = ?cs"
    by (simp only: st Calls_runCalls) (simp add: mkStub_simps)
  have fail: "\<And>cs. State (snd (runCalls ?f cs)) = State ?f"
    by (rule State_runCalls_all_failing) simp_all
  have s1: "State (snd (transferUTXO ref_lib ?f ?args)) = genesis"
    by (simp only: st fail) (simp add: mkStub_simps)
  have s2: "State (deleteSpent ?f [''tx0:1'']) = genesis"
    by (simp only: d1 fail) (simp add: mkStub_simps)
  from r cl es s1 d2 s2 show ?thesis by (intro conjI)
qed

lemma decode_genesis_UTXO:
  "decodeUTXO ref_lib (json_Marshal_UTXO ref_lib (makeUTXO ''tx0'' ''1'' ''50'' ''User A'' ''out''))
     = makeUTXO ''tx0'' ''1'' ''50'' ''User A'' []"
  by (simp add: decodeUTXO_def json_Unmarshal_UTXO_def json_Marshal_UTXO_def ref_lib_simps
      ref_json_members_def ref_parse_def ref_json_object_def ref_member_def makeUTXO_def
      zero_UTXO_def)

text \<open>
  C5 at the failing input: a transfer of \<open>20\<close> from \<open>User A\<close> on the genesis ledger.
  The scan yields the entries in ascending key order, and the entry under \<open>tx0:1\<close> is
  the record of the UTXO that \<open>initState\<close> created for \<open>User A\<close> with direction
  \<open>out\<close>, which passes the ownership check. Decoded from the store it has the empty
  direction, so the check fails on it: the loop appends nothing, adds nothing to the
  running total and runs to the end of the scan, and the transfer fails for
  insufficient funds.
\<close>

theorem selection_skips_owned_UTXO:
  "scanAll (mkStub ''tx1'' genesis) =
     [(''tx0'', ''{}''),
      (''tx0:1'', json_Marshal_UTXO ref_lib (makeUTXO ''tx0'' ''1'' ''50'' ''User A'' ''out''))]
   \<and> checkUTXOOwnerShip (makeUTXO ''tx0'' ''1'' ''50'' ''User A'' ''out'') ''User A''
   \<and> decodeUTXO ref_lib
        (json_Marshal_UTXO ref_lib (makeUTXO ''tx0'' ''1'' ''50'' ''User A'' ''out''))
       = makeUTXO ''tx0'' ''1'' ''50'' ''User A'' []
   \<and> checkUTXOOwnerShip (makeUTXO ''tx0'' ''1'' ''50'' ''User A'' []) ''User A'' = False
   \<and> ref_ParseFloat ''20'' = 20
   \<and> transferUTXO_loop ref_lib ''User A'' 20 (map Inr (scanAll (mkStub ''tx1'' genesis)))
        ([], [], 0) = Inr ([], [], 0)
   \<and> fst (transferUTXO ref_lib (mkStub ''tx1'' genesis) [''User A'', ''User B'', ''20''])
       = Error ''No enough amount to spend''"
proof -
  let ?s = "mkStub ''tx1'' genesis"
  let ?args = "[''User A'', ''User B'', ''20'']"
  have c1: "checkUTXOOwnerShip (makeUTXO ''tx0'' ''1'' ''50'' ''User A'' ''out'') ''User A''"
    by (simp add: checkUTXOOwnerShip_def makeUTXO_def)
  have c2: "checkUTXOOwnerShip (makeUTXO ''tx0'' ''1'' ''50'' ''User A'' []) ''User A'' = False"
    by (simp add: checkUTXOOwnerShip_def makeUTXO_def)
  have p: "ref_ParseFloat ''20'' = 20" by (simp add: ref_ParseFloat_examples)
  have loop: "transferUTXO_loop ref_lib ''User A'' 20 (map Inr (scanAll ?s)) ([], [], 0)
      = Inr ([], [], 0)"
    unfolding scanAll_genesis
    by (simp add: transferUTXO_loop_skip transferUTXO_loop_no_iteration ref_lib_simps
        decode_genesis_UTXO c2 decoded_never_spendable)
  have len: "length ?args = 3" by simp
  have rng: "GetStateByRange ?s = Inr (map Inr (scanAll ?s))"
    by (rule GetStateByRange_no_errors) (simp_all add: mkStub_simps)
  have loop': "transferUTXO_loop ref_lib (?args ! 0) (ParseFloat ref_lib (?args ! 2))
      (map Inr (scanAll ?s)) ([], [], f_zero ref_lib) = Inr ([], [], 0)"
    using loop by (simp add: ref_lib_simps p)
  have less: "f_less ref_lib 0 (ParseFloat ref_lib (?args ! 2))"
    by (simp add: ref_lib_simps p)
  have t: "fst (transferUTXO ref_lib ?s ?args) = Error ''No enough amount to spend''"
    by (simp add: transferUTXO_fst transferUTXO_tx_insufficient[OF len rng loop' less])
  from scanAll_genesis c1 decode_genesis_UTXO c2 p loop t show ?thesis by (intro conjI)
qed

end
